theory Spec2Isabelle
  imports Main
begin

section \<open>MOSAIC: the multi-platform extractor of \<^verbatim>\<open>modules/Collecte.py\<close>\<close>

text \<open>
  A shallow embedding of the extraction core of MOSAIC. Network answers, the clock, the
  terminal input and the Telegram client library are the environment: each function of
  the model takes what the environment answered as an argument. Exceptions are values of
  \<open>py_error\<close>, and a function that may raise returns \<open>py_error + 'a\<close>.
  A Python string is modelled as a \<open>string\<close> whose characters are read as code points
  below 256.
\<close>

subsection \<open>Exceptions and the terminal log\<close>

datatype py_error = ValueError | KeyError | IndexError

text \<open>The messages of the \<^verbatim>\<open>UI\<close> object that the selection functions emit.\<close>

datatype ui_event =
    UiListItem string
  | UiWarning string
  | UiSelected "string list"

subsection \<open>Python string operations\<close>

text \<open>\<^verbatim>\<open>str.isspace\<close> on one code point below 256.\<close>

definition py_isspace :: "char \<Rightarrow> bool" where
  "py_isspace c \<longleftrightarrow>
     c \<in> set [CHR 0x09, CHR 0x0A, CHR 0x0B, CHR 0x0C, CHR 0x0D, CHR 0x1C, CHR 0x1D,
              CHR 0x1E, CHR 0x1F, CHR 0x20, CHR 0x85, CHR 0xA0]"

text \<open>\<^verbatim>\<open>s.strip()\<close>\<close>

definition strip :: "string \<Rightarrow> string" where
  "strip s = rev (dropWhile py_isspace (rev (dropWhile py_isspace s)))"

text \<open>\<^verbatim>\<open>s.split(sep)\<close> for a separator of one character: the empty string gives \<^verbatim>\<open>['']\<close>.\<close>

fun split_on :: "char \<Rightarrow> string \<Rightarrow> string list" where
  "split_on sep [] = [[]]"
| "split_on sep (c # cs) =
     (if c = sep then [] # split_on sep cs
      else (case split_on sep cs of
              [] \<Rightarrow> [[c]]
            | t # ts \<Rightarrow> (c # t) # ts))"

text \<open>\<^verbatim>\<open>s.replace(c, '')\<close> for one character \<open>c\<close>.\<close>

definition remove_char :: "char \<Rightarrow> string \<Rightarrow> string" where
  "remove_char c s = filter (\<lambda>d. d \<noteq> c) s"

definition is_digit :: "char \<Rightarrow> bool" where
  "is_digit c \<longleftrightarrow> c \<in> set ''0123456789''"

definition digit_val :: "char \<Rightarrow> nat" where
  "digit_val c = of_char c - 48"

text \<open>
  \<^verbatim>\<open>int(s)\<close> in base 10: surrounding whitespace is dropped, then an optional sign, then
  decimal digits in which single underscores may separate digits. Anything else raises
  \<^verbatim>\<open>ValueError\<close>, here \<open>None\<close>. The whitespace of \<^verbatim>\<open>int\<close> is that of
  \<^verbatim>\<open>str.isspace\<close> without the four separators \<open>0x1C\<close> to \<open>0x1F\<close>. An interpreter
  that bounds the number of digits raises \<^verbatim>\<open>ValueError\<close> beyond its bound as well;
  the properties below that range over every input hold whatever \<^verbatim>\<open>int\<close> accepts.
\<close>

definition int_isspace :: "char \<Rightarrow> bool" where
  "int_isspace c \<longleftrightarrow>
     c \<in> set [CHR 0x09, CHR 0x0A, CHR 0x0B, CHR 0x0C, CHR 0x0D, CHR 0x20, CHR 0x85, CHR 0xA0]"

fun parse_digits :: "nat \<Rightarrow> string \<Rightarrow> nat option" where
  "parse_digits acc [] = Some acc"
| "parse_digits acc [c] = (if is_digit c then Some (10 * acc + digit_val c) else None)"
| "parse_digits acc (c # d # ds) =
     (if is_digit c then parse_digits (10 * acc + digit_val c) (d # ds)
      else if c = CHR ''_'' \<and> is_digit d then parse_digits (10 * acc + digit_val d) ds
      else None)"

definition parse_unsigned :: "string \<Rightarrow> nat option" where
  "parse_unsigned s =
     (case s of
        [] \<Rightarrow> None
      | c # cs \<Rightarrow> if is_digit c then parse_digits (digit_val c) cs else None)"

definition py_int :: "string \<Rightarrow> int option" where
  "py_int s =
     (case rev (dropWhile int_isspace (rev (dropWhile int_isspace s))) of
        [] \<Rightarrow> None
      | c # cs \<Rightarrow>
          if c = CHR ''-'' then map_option (\<lambda>n. - int n) (parse_unsigned cs)
          else if c = CHR ''+'' then map_option int (parse_unsigned cs)
          else map_option int (parse_unsigned (c # cs)))"

subsection \<open>Candidate selection (Stack Overflow, YouTube)\<close>

text \<open>
  The loop \<^verbatim>\<open>for part in choice.split(','): idx = int(part.strip()) - 1; ...\<close> over
  \<open>n\<close> candidates: a token that is no integer raises \<^verbatim>\<open>ValueError\<close> and the indices
  collected so far are lost with it.
\<close>

fun parse_parts :: "nat \<Rightarrow> string list \<Rightarrow> nat list \<Rightarrow> py_error + nat list" where
  "parse_parts n [] selected_indices = Inr selected_indices"
| "parse_parts n (part # parts) selected_indices =
     (case py_int (strip part) of
        None \<Rightarrow> Inl ValueError
      | Some v \<Rightarrow>
          (let idx = v - 1
           in parse_parts n parts
                (if 0 \<le> idx \<and> idx < int n then selected_indices @ [nat idx]
                 else selected_indices)))"

text \<open>
  \<^verbatim>\<open>[xs[i][key] for i in selected_indices]\<close>: a key that the dictionary lacks raises
  \<^verbatim>\<open>KeyError\<close>, an index past the end \<^verbatim>\<open>IndexError\<close>, at the first such \<open>i\<close>.
\<close>

fun subscripts :: "'a list \<Rightarrow> ('a \<Rightarrow> 'b option) \<Rightarrow> nat list \<Rightarrow> py_error + 'b list" where
  "subscripts xs key [] = Inr []"
| "subscripts xs key (i # is) =
     (if i < length xs then
        (case key (xs ! i) of
           None \<Rightarrow> Inl KeyError
         | Some v \<Rightarrow>
             (case subscripts xs key is of
                Inl e \<Rightarrow> Inl e
              | Inr vs \<Rightarrow> Inr (v # vs)))
      else Inl IndexError)"

text \<open>
  \<^verbatim>\<open>choice\<close> to \<^verbatim>\<open>selected_indices\<close>, with the warning of the empty selection:
  the first statement of the \<^verbatim>\<open>try\<close> block of both selection functions.
\<close>

definition selected_indices_of ::
  "string \<Rightarrow> nat \<Rightarrow> string \<Rightarrow> py_error + (ui_event list \<times> nat list)" where
  "selected_indices_of warning n choice =
     (if choice = [] then Inr ([], [0 ..< n])
      else
        (case parse_parts n (split_on CHR '','' choice) [] of
           Inl e \<Rightarrow> Inl e
         | Inr selected_indices \<Rightarrow>
             if selected_indices = [] then Inr ([UiWarning warning], [0])
             else Inr ([], selected_indices)))"

text \<open>
  A candidate of the Stack Exchange user search. The code reads \<^verbatim>\<open>display_name\<close> and
  \<^verbatim>\<open>user_id\<close> by subscript, so a missing key is \<open>None\<close> here, and \<^verbatim>\<open>reputation\<close>
  with a default.
\<close>

record so_user =
  so_display_name :: "string option"
  so_user_id :: "int option"
  so_reputation :: int

definition so_warning :: string where
  "so_warning = ''Invalid selection, using first user''"

text \<open>The body of the \<^verbatim>\<open>try\<close> block of \<^verbatim>\<open>StackOverflowExtractor._select_user\<close>.\<close>

definition select_user_try ::
  "so_user list \<Rightarrow> string \<Rightarrow> ui_event list \<times> (py_error + int list)" where
  "select_user_try users choice =
     (case selected_indices_of so_warning (length users) choice of
        Inl e \<Rightarrow> ([], Inl e)
      | Inr (log, selected_indices) \<Rightarrow>
          (case subscripts users so_display_name selected_indices of
             Inl e \<Rightarrow> (log, Inl e)
           | Inr selected_names \<Rightarrow>
               (log @ [UiSelected selected_names],
                subscripts users so_user_id selected_indices)))"

text \<open>
  \<^verbatim>\<open>StackOverflowExtractor._select_user\<close>; \<open>raw\<close> is what \<^verbatim>\<open>input\<close> returned.
  The handler catches \<^verbatim>\<open>ValueError\<close> and \<^verbatim>\<open>KeyError\<close> and reads
  \<^verbatim>\<open>users[0]['user_id']\<close>, which may raise again.
\<close>

definition select_user ::
  "so_user list \<Rightarrow> string \<Rightarrow> ui_event list \<times> (py_error + int list)" where
  "select_user users raw =
     (let listing =
            map (\<lambda>u. UiListItem (case so_display_name u of None \<Rightarrow> ''N/A'' | Some name \<Rightarrow> name))
              (take 5 users)
      in case select_user_try users (strip raw) of
           (log, Inr ids) \<Rightarrow> (listing @ log, Inr ids)
         | (log, Inl e) \<Rightarrow>
             if e = ValueError \<or> e = KeyError then
               (listing @ log @ [UiWarning so_warning],
                (case users of
                   [] \<Rightarrow> Inl IndexError
                 | u # _ \<Rightarrow>
                     (case so_user_id u of None \<Rightarrow> Inl KeyError | Some i \<Rightarrow> Inr [i])))
             else (listing @ log, Inl e))"

text \<open>
  A candidate of the YouTube channel search: \<^verbatim>\<open>id\<close> and \<^verbatim>\<open>snippet.title\<close> are read by
  subscript; the two counters of \<^verbatim>\<open>statistics\<close> are strings read with a default and
  converted by \<^verbatim>\<open>int\<close>.
\<close>

record yt_channel =
  yt_id :: "string option"
  yt_title :: "string option"
  yt_subscriberCount :: "string option"
  yt_videoCount :: "string option"

definition yt_warning :: string where
  "yt_warning = ''Invalid selection, using first channel''"

text \<open>\<^verbatim>\<open>int(stats.get(key, 0))\<close>\<close>

definition stat_count :: "string option \<Rightarrow> py_error + int" where
  "stat_count v =
     (case v of
        None \<Rightarrow> Inr 0
      | Some s \<Rightarrow> (case py_int s of None \<Rightarrow> Inl ValueError | Some k \<Rightarrow> Inr k))"

text \<open>The listing loop over \<^verbatim>\<open>channels[:10]\<close>, which stands before the \<^verbatim>\<open>try\<close> block.\<close>

fun channel_listing :: "yt_channel list \<Rightarrow> py_error + ui_event list" where
  "channel_listing [] = Inr []"
| "channel_listing (channel # rest) =
     (case stat_count (yt_subscriberCount channel) of
        Inl e \<Rightarrow> Inl e
      | Inr subscribers \<Rightarrow>
          (case stat_count (yt_videoCount channel) of
             Inl e \<Rightarrow> Inl e
           | Inr video_count \<Rightarrow>
               (case channel_listing rest of
                  Inl e \<Rightarrow> Inl e
                | Inr items \<Rightarrow>
                    Inr (UiListItem (case yt_title channel of None \<Rightarrow> ''N/A'' | Some t \<Rightarrow> t)
                         # items))))"

definition select_channels_try ::
  "yt_channel list \<Rightarrow> string \<Rightarrow> ui_event list \<times> (py_error + string list)" where
  "select_channels_try channels choice =
     (case selected_indices_of yt_warning (length channels) choice of
        Inl e \<Rightarrow> ([], Inl e)
      | Inr (log, selected_indices) \<Rightarrow>
          (case subscripts channels yt_title selected_indices of
             Inl e \<Rightarrow> (log, Inl e)
           | Inr selected_names \<Rightarrow>
               (log @ [UiSelected selected_names],
                subscripts channels yt_id selected_indices)))"

text \<open>
  \<^verbatim>\<open>YouTubeExtractor._select_channels\<close>: the handler catches \<^verbatim>\<open>ValueError\<close>,
  \<^verbatim>\<open>KeyError\<close> and \<^verbatim>\<open>IndexError\<close>.
\<close>

definition select_channels ::
  "yt_channel list \<Rightarrow> string \<Rightarrow> ui_event list \<times> (py_error + string list)" where
  "select_channels channels raw =
     (case channel_listing (take 10 channels) of
        Inl e \<Rightarrow> ([], Inl e)
      | Inr listing \<Rightarrow>
          (case select_channels_try channels (strip raw) of
             (log, Inr ids) \<Rightarrow> (listing @ log, Inr ids)
           | (log, Inl e) \<Rightarrow>
               (listing @ log @ [UiWarning yt_warning],
                (case channels of
                   [] \<Rightarrow> Inl IndexError
                 | c # _ \<Rightarrow>
                     (case yt_id c of None \<Rightarrow> Inl KeyError | Some i \<Rightarrow> Inr [i])))))"

text \<open>
  Candidates as the two APIs document them: every key the selection reads by subscript
  is there, and the YouTube counters are decimal strings.
\<close>

definition wf_users :: "so_user list \<Rightarrow> bool" where
  "wf_users users \<longleftrightarrow>
     list_all (\<lambda>u. so_display_name u \<noteq> None \<and> so_user_id u \<noteq> None) users"

definition wf_channels :: "yt_channel list \<Rightarrow> bool" where
  "wf_channels channels \<longleftrightarrow>
     list_all (\<lambda>c. yt_id c \<noteq> None \<and> yt_title c \<noteq> None
                  \<and> stat_count (yt_subscriberCount c) \<noteq> Inl ValueError
                  \<and> stat_count (yt_videoCount c) \<noteq> Inl ValueError) channels"

subsection \<open>JSON values, HTTP answers, the clock and the written files\<close>

datatype json =
    JNull
  | JBool bool
  | JInt int
  | JStr string
  | JList "json list"
  | JObj "(string \<times> json) list"

text \<open>\<^verbatim>\<open>d.get(key)\<close> on a dictionary literal of the code.\<close>

fun jfield :: "string \<Rightarrow> json \<Rightarrow> json option" where
  "jfield key (JObj kvs) = map_of kvs key"
| "jfield key _ = None"

text \<open>
  The outcome of \<^verbatim>\<open>requests.get(...); response.raise_for_status(); response.json()\<close>:
  either \<^verbatim>\<open>requests.RequestException\<close> is raised or the body is there.
\<close>

datatype 'a http_result = RequestException | Response 'a

text \<open>\<^verbatim>\<open>datetime.now()\<close>\<close>

record datetime =
  year :: nat
  month :: nat
  day :: nat
  hour :: nat
  minute :: nat
  second :: nat
  microsecond :: nat

definition digit_char :: "nat \<Rightarrow> char" where
  "digit_char n = char_of (48 + n mod 10)"

text \<open>A number in decimal, zero-padded to \<open>w\<close> digits (\<^verbatim>\<open>%02d\<close>, \<^verbatim>\<open>%04d\<close>, \<^verbatim>\<open>%06d\<close>).\<close>

fun pad_num :: "nat \<Rightarrow> nat \<Rightarrow> string" where
  "pad_num 0 n = []"
| "pad_num (Suc w) n = pad_num w (n div 10) @ [digit_char n]"

text \<open>
  \<^verbatim>\<open>t.strftime('%Y%m%d_%H%M%S')\<close>, for the years of four digits that
  \<^verbatim>\<open>datetime.now()\<close> returns.
\<close>

definition strftime_stamp :: "datetime \<Rightarrow> string" where
  "strftime_stamp t =
     pad_num 4 (year t) @ pad_num 2 (month t) @ pad_num 2 (day t) @ ''_''
     @ pad_num 2 (hour t) @ pad_num 2 (minute t) @ pad_num 2 (second t)"

text \<open>\<^verbatim>\<open>t.isoformat()\<close>: the fraction is printed when the microseconds are not zero.\<close>

definition isoformat :: "datetime \<Rightarrow> string" where
  "isoformat t =
     pad_num 4 (year t) @ ''-'' @ pad_num 2 (month t) @ ''-'' @ pad_num 2 (day t) @ ''T''
     @ pad_num 2 (hour t) @ '':'' @ pad_num 2 (minute t) @ '':'' @ pad_num 2 (second t)
     @ (if microsecond t = 0 then [] else ''.'' @ pad_num 6 (microsecond t))"

text \<open>
  The world a run acts on: the files written so far, in order, each with the document
  that \<^verbatim>\<open>json.dump\<close> received, and the number of times the clock was read.
\<close>

record world =
  files :: "(string \<times> json) list"
  ticks :: nat

type_synonym clock = "nat \<Rightarrow> datetime"

definition now :: "clock \<Rightarrow> world \<Rightarrow> datetime \<times> world" where
  "now clk w = (clk (ticks w), w\<lparr>ticks := Suc (ticks w)\<rparr>)"

text \<open>\<^verbatim>\<open>BaseExtractor._save_json\<close>\<close>

definition save_json :: "clock \<Rightarrow> string \<Rightarrow> json \<Rightarrow> string \<Rightarrow> world \<Rightarrow> string \<times> world" where
  "save_json clk platform_name data username w =
     (let (t, w1) = now clk w;
          timestamp = strftime_stamp t;
          filename = platform_name @ ''_'' @ username @ ''_'' @ timestamp @ ''.json''
      in (filename, w1\<lparr>files := files w1 @ [(filename, data)]\<rparr>))"

text \<open>
  The tail shared by every \<^verbatim>\<open>run\<close>: the document gets its \<^verbatim>\<open>extraction_date\<close>,
  is saved, and the file name is returned.
\<close>

definition export_document ::
  "clock \<Rightarrow> string \<Rightarrow> (string \<times> json) list \<Rightarrow> string \<Rightarrow> world \<Rightarrow> string \<times> world" where
  "export_document clk platform_name sections username w =
     (let (t, w1) = now clk w;
          data = JObj (sections @ [(''extraction_date'', JStr (isoformat t))])
      in save_json clk platform_name data username w1)"

text \<open>
  Patterns of file names and dates, as the specification words them: in a pattern the
  letter \<open>d\<close> stands for one decimal digit and every other character for itself.
\<close>

fun matches_pattern :: "string \<Rightarrow> string \<Rightarrow> bool" where
  "matches_pattern [] [] = True"
| "matches_pattern (p # ps) (c # cs) =
     ((if p = CHR ''d'' then is_digit c else c = p) \<and> matches_pattern ps cs)"
| "matches_pattern _ _ = False"

definition iso8601 :: "string \<Rightarrow> bool" where
  "iso8601 s \<longleftrightarrow>
     matches_pattern ''dddd-dd-ddTdd:dd:dd'' s \<or> matches_pattern ''dddd-dd-ddTdd:dd:dd.dddddd'' s"

text \<open>
  \<open>{platform}_{identity}_{stamp}.json\<close> where the stamp matches the given pattern.
\<close>

definition named_with :: "string \<Rightarrow> string \<Rightarrow> string \<Rightarrow> string \<Rightarrow> bool" where
  "named_with stamp platform_name identity filename \<longleftrightarrow>
     (let head = platform_name @ ''_'' @ identity @ ''_''
      in take (length head) filename = head
         \<and> matches_pattern (stamp @ ''.json'') (drop (length head) filename))"

text \<open>The 14-digit stamp of the specification, and the stamp the code writes.\<close>

definition stamp14 :: string where
  "stamp14 = ''dddddddddddddd''"

definition stamp_8_6 :: string where
  "stamp_8_6 = ''dddddddd_dddddd''"

subsection \<open>The platform clients\<close>

text \<open>
  What a fetch function builds from a body that arrived (the dictionary literal with the
  copied fields) is a parameter of the model, written \<open>\<dots>_of\<close>: the properties below hold
  for every such function. A body that arrived is taken to have the shape the code reads
  it with, so that copying its fields raises nothing. The calls to the \<^verbatim>\<open>UI\<close> object
  and the politeness delays \<^verbatim>\<open>time.sleep\<close> are left out of the clients, and the
  file is taken to be writable. A dictionary literal with keys is truthy, so
  \<^verbatim>\<open>if not user_info\<close> is the test for \<^verbatim>\<open>None\<close>.
\<close>

record deps =
  has_requests :: bool
  has_telethon :: bool

subsubsection \<open>GitHub\<close>

record github_env =
  gh_user :: "string \<Rightarrow> json http_result"
  gh_repos :: "string \<Rightarrow> json list http_result"
  gh_events :: "string \<Rightarrow> json list http_result"
  gh_info_of :: "json \<Rightarrow> json"
  gh_repo_of :: "json \<Rightarrow> json"
  gh_event_of :: "json \<Rightarrow> json"

text \<open>\<^verbatim>\<open>GitHubExtractor._get_user_info\<close>\<close>

definition github_get_user_info :: "github_env \<Rightarrow> string \<Rightarrow> json option" where
  "github_get_user_info env username =
     (case gh_user env username of
        RequestException \<Rightarrow> None
      | Response user \<Rightarrow> Some (gh_info_of env user))"

text \<open>\<^verbatim>\<open>GitHubExtractor._get_repositories\<close>\<close>

definition github_get_repositories :: "github_env \<Rightarrow> string \<Rightarrow> json list" where
  "github_get_repositories env username =
     (case gh_repos env username of
        RequestException \<Rightarrow> []
      | Response repos \<Rightarrow> map (gh_repo_of env) repos)"

text \<open>\<^verbatim>\<open>GitHubExtractor._get_events\<close>\<close>

definition github_get_events :: "github_env \<Rightarrow> string \<Rightarrow> json list" where
  "github_get_events env username =
     (case gh_events env username of
        RequestException \<Rightarrow> []
      | Response events \<Rightarrow> map (gh_event_of env) events)"

text \<open>\<^verbatim>\<open>GitHubExtractor.run\<close>\<close>

definition github_run ::
  "deps \<Rightarrow> clock \<Rightarrow> github_env \<Rightarrow> string \<Rightarrow> world \<Rightarrow> string option \<times> world" where
  "github_run d clk env username w =
     (if \<not> has_requests d then (None, w)
      else
        (case github_get_user_info env username of
           None \<Rightarrow> (None, w)
         | Some user_info \<Rightarrow>
             (let repos = github_get_repositories env username;
                  events = github_get_events env username;
                  (filename, w') =
                     export_document clk ''github''
                       [(''user_info'', user_info), (''repositories'', JList repos),
                        (''events'', JList events)] username w
              in (Some filename, w'))))"

subsubsection \<open>Reddit\<close>

text \<open>
  \<open>rd_about\<close> answers with the \<^verbatim>\<open>data\<close> member of the body, \<open>None\<close> when the body has
  none; \<open>rd_submitted\<close> and \<open>rd_comments\<close> with \<^verbatim>\<open>data.children\<close>, \<open>None\<close> when
  one of the two keys is missing.
\<close>

record reddit_env =
  rd_about :: "string \<Rightarrow> json option http_result"
  rd_submitted :: "string \<Rightarrow> json list option http_result"
  rd_comments :: "string \<Rightarrow> json list option http_result"
  rd_info_of :: "json \<Rightarrow> json"
  rd_post_of :: "json \<Rightarrow> json"
  rd_comment_of :: "json \<Rightarrow> json"

text \<open>\<^verbatim>\<open>RedditExtractor._get_user_info\<close>\<close>

definition reddit_get_user_info :: "reddit_env \<Rightarrow> string \<Rightarrow> json option" where
  "reddit_get_user_info env username =
     (case rd_about env username of
        RequestException \<Rightarrow> None
      | Response None \<Rightarrow> None
      | Response (Some user_data) \<Rightarrow> Some (rd_info_of env user_data))"

text \<open>\<^verbatim>\<open>RedditExtractor._get_posts\<close> and \<^verbatim>\<open>_get_comments\<close>\<close>

definition reddit_listing ::
  "json list option http_result \<Rightarrow> (json \<Rightarrow> json) \<Rightarrow> json list" where
  "reddit_listing answer item_of =
     (case answer of
        RequestException \<Rightarrow> []
      | Response None \<Rightarrow> []
      | Response (Some children) \<Rightarrow> map item_of children)"

text \<open>\<^verbatim>\<open>RedditExtractor.run\<close>\<close>

definition reddit_run ::
  "deps \<Rightarrow> clock \<Rightarrow> reddit_env \<Rightarrow> string \<Rightarrow> world \<Rightarrow> string option \<times> world" where
  "reddit_run d clk env username w =
     (if \<not> has_requests d then (None, w)
      else
        (case reddit_get_user_info env username of
           None \<Rightarrow> (None, w)
         | Some user_info \<Rightarrow>
             (let posts = reddit_listing (rd_submitted env username) (rd_post_of env);
                  comments = reddit_listing (rd_comments env username) (rd_comment_of env);
                  (filename, w') =
                     export_document clk ''reddit''
                       [(''user_info'', user_info), (''posts'', JList posts),
                        (''comments'', JList comments)] username w
              in (Some filename, w'))))"

subsubsection \<open>Medium\<close>

text \<open>
  The body of the feed either fails to parse (\<^verbatim>\<open>ET.ParseError\<close>) or is a document
  with its \<^verbatim>\<open>item\<close> elements.
\<close>

datatype rss = ParseError | Feed "json list"

record medium_env =
  md_feed :: "string \<Rightarrow> rss http_result"
  md_article_of :: "json \<Rightarrow> json"

text \<open>\<^verbatim>\<open>MediumExtractor._fetch_articles\<close>\<close>

definition medium_fetch_articles :: "medium_env \<Rightarrow> string \<Rightarrow> json list option" where
  "medium_fetch_articles env username =
     (case md_feed env username of
        RequestException \<Rightarrow> None
      | Response ParseError \<Rightarrow> None
      | Response (Feed items) \<Rightarrow> Some (map (md_article_of env) items))"

text \<open>\<^verbatim>\<open>MediumExtractor.run\<close>: \<^verbatim>\<open>if not articles\<close> holds of \<^verbatim>\<open>None\<close> and of the empty list.\<close>

definition medium_run ::
  "deps \<Rightarrow> clock \<Rightarrow> medium_env \<Rightarrow> string \<Rightarrow> world \<Rightarrow> string option \<times> world" where
  "medium_run d clk env username w =
     (if \<not> has_requests d then (None, w)
      else
        (case medium_fetch_articles env username of
           None \<Rightarrow> (None, w)
         | Some articles \<Rightarrow>
             if articles = [] then (None, w)
             else
               (let (filename, w') =
                      export_document clk ''medium'' [(''articles'', JList articles)] username w
                in (Some filename, w'))))"

subsubsection \<open>Bluesky\<close>

text \<open>
  A page of \<^verbatim>\<open>getAuthorFeed\<close>: \<^verbatim>\<open>data.get('feed', [])\<close> and \<^verbatim>\<open>data.get('cursor')\<close>.
  The server answers the \<open>k\<close>-th page request for an actor and the cursor sent with it.
  \<open>bs_resolve\<close> answers with \<^verbatim>\<open>data.get('did')\<close>.
\<close>

record bsky_page =
  pg_feed :: "json list"
  pg_cursor :: "string option"

record bluesky_env =
  bs_resolve :: "string \<Rightarrow> string option http_result"
  bs_profile :: "string \<Rightarrow> json http_result"
  bs_author_feed :: "nat \<Rightarrow> string \<Rightarrow> string option \<Rightarrow> bsky_page http_result"
  bs_profile_of :: "json \<Rightarrow> json"
  bs_post_of :: "json \<Rightarrow> json"

text \<open>The list \<^verbatim>\<open>handles_to_try\<close> of \<^verbatim>\<open>BlueskyExtractor._resolve_handle\<close>.\<close>

definition handles_to_try :: "string \<Rightarrow> string list" where
  "handles_to_try raw =
     (let handle = strip (remove_char CHR ''@'' raw)
      in handle # (if CHR ''.'' \<notin> set handle
                   then [handle @ ''.bsky.social'', handle @ ''.com'']
                   else []))"

text \<open>The loop \<^verbatim>\<open>for h in handles_to_try\<close>: a DID that is there and not empty is returned.\<close>

fun try_handles :: "(string \<Rightarrow> string option http_result) \<Rightarrow> string list \<Rightarrow> string option" where
  "try_handles resolve [] = None"
| "try_handles resolve (h # hs) =
     (case resolve h of
        RequestException \<Rightarrow> try_handles resolve hs
      | Response None \<Rightarrow> try_handles resolve hs
      | Response (Some did) \<Rightarrow> if did \<noteq> [] then Some did else try_handles resolve hs)"

definition resolve_handle :: "bluesky_env \<Rightarrow> string \<Rightarrow> string option" where
  "resolve_handle env handle = try_handles (bs_resolve env) (handles_to_try handle)"

text \<open>\<^verbatim>\<open>BlueskyExtractor._get_profile\<close>\<close>

definition bluesky_get_profile :: "bluesky_env \<Rightarrow> string \<Rightarrow> json option" where
  "bluesky_get_profile env actor =
     (case bs_profile env actor of
        RequestException \<Rightarrow> None
      | Response data \<Rightarrow> Some (bs_profile_of env data))"

definition max_posts :: nat where
  "max_posts = 200"

text \<open>
  The loop \<^verbatim>\<open>while len(all_posts) < max_posts\<close> of \<^verbatim>\<open>BlueskyExtractor._get_posts\<close>.
  \<open>k\<close> counts the page requests issued so far; the result is the list collected and the
  number of requests issued. An empty cursor is falsy, as a missing one is.
\<close>

function get_posts_loop ::
  "bluesky_env \<Rightarrow> string \<Rightarrow> nat \<Rightarrow> string option \<Rightarrow> json list \<Rightarrow> json list \<times> nat" where
  "get_posts_loop env actor k cursor all_posts =
     (if length all_posts < max_posts then
        (case bs_author_feed env k actor cursor of
           RequestException \<Rightarrow> (all_posts, Suc k)
         | Response data \<Rightarrow>
             if pg_feed data = [] then (all_posts, Suc k)
             else
               (case pg_cursor data of
                  None \<Rightarrow> (all_posts @ map (bs_post_of env) (pg_feed data), Suc k)
                | Some c \<Rightarrow>
                    if c = [] then (all_posts @ map (bs_post_of env) (pg_feed data), Suc k)
                    else get_posts_loop env actor (Suc k) (Some c)
                           (all_posts @ map (bs_post_of env) (pg_feed data))))
      else (all_posts, k))"
  by pat_completeness auto
termination
  by (relation "measure (\<lambda>(env, actor, k, cursor, all_posts). max_posts - length all_posts)")
     (auto simp: neq_Nil_conv)

declare get_posts_loop.simps [simp del]

text \<open>\<^verbatim>\<open>BlueskyExtractor._get_posts\<close>: the collected list is cut to \<^verbatim>\<open>max_posts\<close>.\<close>

definition bluesky_get_posts :: "bluesky_env \<Rightarrow> string \<Rightarrow> json list" where
  "bluesky_get_posts env actor = take max_posts (fst (get_posts_loop env actor 0 None []))"


text \<open>\<^verbatim>\<open>BlueskyExtractor.run\<close>\<close>

definition bluesky_run ::
  "deps \<Rightarrow> clock \<Rightarrow> bluesky_env \<Rightarrow> string \<Rightarrow> world \<Rightarrow> string option \<times> world" where
  "bluesky_run d clk env username w =
     (if \<not> has_requests d then (None, w)
      else
        (case resolve_handle env username of
           None \<Rightarrow> (None, w)
         | Some did \<Rightarrow>
             (case bluesky_get_profile env did of
                None \<Rightarrow> (None, w)
              | Some profile \<Rightarrow>
                  (let posts = bluesky_get_posts env did;
                       (filename, w') =
                          export_document clk ''bluesky''
                            [(''profile'', profile), (''posts'', JList posts)] username w
                   in (Some filename, w')))))"

subsubsection \<open>Mastodon\<close>

text \<open>\<^verbatim>\<open>needle in hay\<close> on strings.\<close>

fun starts_with :: "string \<Rightarrow> string \<Rightarrow> bool" where
  "starts_with [] hay = True"
| "starts_with (n # ns) [] = False"
| "starts_with (n # ns) (h # hs) = (n = h \<and> starts_with ns hs)"

fun contains :: "string \<Rightarrow> string \<Rightarrow> bool" where
  "contains needle [] = (needle = [])"
| "contains needle (h # hs) = (starts_with needle (h # hs) \<or> contains needle hs)"

text \<open>
  The loop of \<^verbatim>\<open>MastodonExtractor._parse_link_header\<close> over the links: a link with
  exactly two parts whose second part contains \<^verbatim>\<open>rel="<rel>"\<close> gives its first part
  without the first and the last character.
\<close>

fun first_link :: "string list \<Rightarrow> string \<Rightarrow> string option" where
  "first_link [] rel = None"
| "first_link (link # links) rel =
     (case split_on CHR '';'' link of
        [p0, p1] \<Rightarrow>
          if contains (''rel='' @ [CHR 0x22] @ rel @ [CHR 0x22]) (strip p1)
          then Some (butlast (tl (strip p0)))
          else first_link links rel
      | _ \<Rightarrow> first_link links rel)"

definition parse_link_header :: "string \<Rightarrow> string \<Rightarrow> string option" where
  "parse_link_header link_header rel =
     (if link_header = [] then None else first_link (split_on CHR '','' link_header) rel)"

text \<open>
  A page of statuses: the body and \<^verbatim>\<open>response.headers.get('Link', '')\<close>. The server
  answers the \<open>k\<close>-th page request for a URL. \<open>ms_account_id\<close> is the text that the
  f-string makes of \<^verbatim>\<open>account['id']\<close>.
\<close>

record masto_page =
  pg_statuses :: "json list"
  pg_link :: string

record mastodon_env =
  ms_instance :: string
  ms_lookup :: "string \<Rightarrow> json http_result"
  ms_statuses :: "nat \<Rightarrow> string \<Rightarrow> masto_page http_result"
  ms_account_of :: "json \<Rightarrow> json"
  ms_account_id :: "json \<Rightarrow> string"
  ms_status_of :: "json \<Rightarrow> json"

text \<open>\<^verbatim>\<open>MastodonExtractor._search_account\<close>\<close>

definition mastodon_search_account :: "mastodon_env \<Rightarrow> string \<Rightarrow> json option" where
  "mastodon_search_account env username =
     (case ms_lookup env username of
        RequestException \<Rightarrow> None
      | Response account \<Rightarrow> Some (ms_account_of env account))"

definition max_toots :: nat where
  "max_toots = 200"

text \<open>
  The loop \<^verbatim>\<open>while len(all_statuses) < max_toots\<close> of
  \<^verbatim>\<open>MastodonExtractor._get_statuses\<close>, with the count \<open>k\<close> of page requests.
\<close>

function get_statuses_loop ::
  "mastodon_env \<Rightarrow> nat \<Rightarrow> string \<Rightarrow> json list \<Rightarrow> json list \<times> nat" where
  "get_statuses_loop env k url all_statuses =
     (if length all_statuses < max_toots then
        (case ms_statuses env k url of
           RequestException \<Rightarrow> (all_statuses, Suc k)
         | Response page \<Rightarrow>
             if pg_statuses page = [] then (all_statuses, Suc k)
             else
               (case parse_link_header (pg_link page) ''next'' of
                  None \<Rightarrow> (all_statuses @ map (ms_status_of env) (pg_statuses page), Suc k)
                | Some next_url \<Rightarrow>
                    if next_url = []
                    then (all_statuses @ map (ms_status_of env) (pg_statuses page), Suc k)
                    else get_statuses_loop env (Suc k) next_url
                           (all_statuses @ map (ms_status_of env) (pg_statuses page))))
      else (all_statuses, k))"
  by pat_completeness auto
termination
  by (relation "measure (\<lambda>(env, k, url, all_statuses). max_toots - length all_statuses)")
     (auto simp: neq_Nil_conv)

declare get_statuses_loop.simps [simp del]

definition statuses_url :: "mastodon_env \<Rightarrow> string \<Rightarrow> string" where
  "statuses_url env account_id =
     ''https://'' @ ms_instance env @ ''/api/v1/accounts/'' @ account_id @ ''/statuses''"

text \<open>\<^verbatim>\<open>MastodonExtractor._get_statuses\<close>: the collected list is cut to \<^verbatim>\<open>max_toots\<close>.\<close>

definition mastodon_get_statuses :: "mastodon_env \<Rightarrow> string \<Rightarrow> json list" where
  "mastodon_get_statuses env account_id =
     take max_toots (fst (get_statuses_loop env 0 (statuses_url env account_id) []))"


text \<open>\<^verbatim>\<open>MastodonExtractor.run\<close>\<close>

definition mastodon_run ::
  "deps \<Rightarrow> clock \<Rightarrow> mastodon_env \<Rightarrow> string \<Rightarrow> world \<Rightarrow> string option \<times> world" where
  "mastodon_run d clk env username w =
     (if \<not> has_requests d then (None, w)
      else
        (case mastodon_search_account env username of
           None \<Rightarrow> (None, w)
         | Some account \<Rightarrow>
             (let statuses = mastodon_get_statuses env (ms_account_id env account);
                  (filename, w') =
                     export_document clk ''mastodon''
                       [(''account'', account), (''statuses'', JList statuses)] username w
              in (Some filename, w'))))"

subsubsection \<open>Telegram\<close>

text \<open>
  What the asynchronous iterator \<^verbatim>\<open>client.iter_messages(username, limit=n)\<close> of the
  Telethon library does: it yields messages and ends, or it yields some and raises.
\<close>

datatype 'a message_stream = Yields "'a list" | YieldsThenRaises "'a list"

fun yielded :: "'a message_stream \<Rightarrow> 'a list" where
  "yielded (Yields ms) = ms"
| "yielded (YieldsThenRaises ms) = ms"

text \<open>
  \<open>tg_connect\<close>: \<^verbatim>\<open>client.start\<close> and \<^verbatim>\<open>get_me\<close> went through.
  \<open>tg_get_entity\<close>: the entity, or \<open>None\<close> when \<^verbatim>\<open>get_entity\<close> raised
  (\<^verbatim>\<open>UsernameNotOccupiedError\<close> or any other exception).
\<close>

record telegram_env =
  tg_api_id :: "int option"
  tg_api_hash :: "string option"
  tg_connect :: bool
  tg_get_entity :: "string \<Rightarrow> json option"
  tg_iter_messages :: "string \<Rightarrow> nat \<Rightarrow> json message_stream"
  tg_info_of :: "json \<Rightarrow> json"
  tg_message_of :: "json \<Rightarrow> json"

text \<open>\<^verbatim>\<open>TelegramExtractor._get_entity_info\<close>\<close>

definition telegram_get_entity_info :: "telegram_env \<Rightarrow> string \<Rightarrow> json option" where
  "telegram_get_entity_info env username =
     (case tg_get_entity env (strip (remove_char CHR ''@'' username)) of
        None \<Rightarrow> None
      | Some entity \<Rightarrow> Some (tg_info_of env entity))"

definition max_messages :: nat where
  "max_messages = 800"

text \<open>
  \<^verbatim>\<open>TelegramExtractor._extract_messages\<close>: every message the iterator yields is kept;
  an exception on the way gives the empty list.
\<close>

definition telegram_extract_messages :: "telegram_env \<Rightarrow> string \<Rightarrow> json list" where
  "telegram_extract_messages env username =
     (case tg_iter_messages env username max_messages of
        Yields ms \<Rightarrow> map (tg_message_of env) ms
      | YieldsThenRaises ms \<Rightarrow> [])"

text \<open>
  \<^verbatim>\<open>TelegramExtractor.run\<close> with \<^verbatim>\<open>_run_async\<close>: \<^verbatim>\<open>not self.api_id\<close> holds of
  \<^verbatim>\<open>None\<close> and of 0, \<^verbatim>\<open>not self.api_hash\<close> of \<^verbatim>\<open>None\<close> and of the empty string.
\<close>

definition telegram_run ::
  "deps \<Rightarrow> clock \<Rightarrow> telegram_env \<Rightarrow> string \<Rightarrow> world \<Rightarrow> string option \<times> world" where
  "telegram_run d clk env username w =
     (if tg_api_id env = None \<or> tg_api_id env = Some 0
         \<or> tg_api_hash env = None \<or> tg_api_hash env = Some [] then (None, w)
      else if \<not> has_telethon d then (None, w)
      else if \<not> tg_connect env then (None, w)
      else
        (case telegram_get_entity_info env username of
           None \<Rightarrow> (None, w)
         | Some entity_info \<Rightarrow>
             (let messages = telegram_extract_messages env username;
                  (filename, w') =
                     export_document clk ''telegram''
                       [(''entity_info'', entity_info), (''messages'', JList messages)] username w
              in (Some filename, w'))))"

subsubsection \<open>Stack Overflow\<close>

text \<open>
  \<open>so_search\<close> answers with \<^verbatim>\<open>data.get('items', [])\<close> of the user search, the other
  requests with the \<^verbatim>\<open>items\<close> member of the body, \<open>None\<close> when the body has none.
  \<open>so_input\<close> is what the user types at the selection prompt.
\<close>

record stackoverflow_env =
  so_search :: "string \<Rightarrow> so_user list http_result"
  so_input :: string
  so_profile :: "int \<Rightarrow> json list option http_result"
  so_questions :: "int \<Rightarrow> json list option http_result"
  so_answers :: "int \<Rightarrow> json list option http_result"
  so_badges :: "int \<Rightarrow> json list option http_result"
  so_info_of :: "json \<Rightarrow> json"

text \<open>\<^verbatim>\<open>StackOverflowExtractor._search_users\<close>\<close>

definition stackoverflow_search_users :: "stackoverflow_env \<Rightarrow> string \<Rightarrow> so_user list option" where
  "stackoverflow_search_users env username =
     (case so_search env username of
        RequestException \<Rightarrow> None
      | Response users \<Rightarrow> Some users)"

text \<open>\<^verbatim>\<open>StackOverflowExtractor._get_profile\<close>\<close>

definition stackoverflow_get_profile :: "stackoverflow_env \<Rightarrow> int \<Rightarrow> json option" where
  "stackoverflow_get_profile env user_id =
     (case so_profile env user_id of
        RequestException \<Rightarrow> None
      | Response None \<Rightarrow> None
      | Response (Some []) \<Rightarrow> None
      | Response (Some (user # _)) \<Rightarrow> Some (so_info_of env user))"

text \<open>\<^verbatim>\<open>_get_questions\<close>, \<^verbatim>\<open>_get_answers\<close>, \<^verbatim>\<open>_get_badges\<close>\<close>

definition stackoverflow_items :: "json list option http_result \<Rightarrow> json list" where
  "stackoverflow_items answer =
     (case answer of
        RequestException \<Rightarrow> []
      | Response None \<Rightarrow> []
      | Response (Some items) \<Rightarrow> items)"

text \<open>\<^verbatim>\<open>StackOverflowExtractor._extract_user_data\<close>\<close>

definition stackoverflow_extract_user_data ::
  "clock \<Rightarrow> stackoverflow_env \<Rightarrow> int \<Rightarrow> world \<Rightarrow> json option \<times> world" where
  "stackoverflow_extract_user_data clk env user_id w =
     (case stackoverflow_get_profile env user_id of
        None \<Rightarrow> (None, w)
      | Some user_info \<Rightarrow>
          (let questions = stackoverflow_items (so_questions env user_id);
               answers = stackoverflow_items (so_answers env user_id);
               badges = stackoverflow_items (so_badges env user_id);
               (t, w') = now clk w
           in (Some (JObj [(''user_info'', user_info), (''questions'', JList questions),
                           (''answers'', JList answers), (''badges'', JList badges),
                           (''extraction_date'', JStr (isoformat t))]), w')))"

text \<open>The loop \<^verbatim>\<open>for idx, user_id in enumerate(selected_ids, 1)\<close>.\<close>

fun stackoverflow_extract_all ::
  "clock \<Rightarrow> stackoverflow_env \<Rightarrow> int list \<Rightarrow> json list \<Rightarrow> world \<Rightarrow> json list \<times> world" where
  "stackoverflow_extract_all clk env [] all_users_data w = (all_users_data, w)"
| "stackoverflow_extract_all clk env (user_id # rest) all_users_data w =
     (case stackoverflow_extract_user_data clk env user_id w of
        (None, w') \<Rightarrow> stackoverflow_extract_all clk env rest all_users_data w'
      | (Some data, w') \<Rightarrow> stackoverflow_extract_all clk env rest (all_users_data @ [data]) w')"

text \<open>\<^verbatim>\<open>StackOverflowExtractor.run\<close>: an exception that leaves the selection leaves the run.\<close>

definition stackoverflow_run ::
  "deps \<Rightarrow> clock \<Rightarrow> stackoverflow_env \<Rightarrow> string \<Rightarrow> world
     \<Rightarrow> (py_error + string option) \<times> world" where
  "stackoverflow_run d clk env username w =
     (if \<not> has_requests d then (Inr None, w)
      else
        (case stackoverflow_search_users env username of
           None \<Rightarrow> (Inr None, w)
         | Some users \<Rightarrow>
             if users = [] then (Inr None, w)
             else
               (case snd (select_user users (so_input env)) of
                  Inl e \<Rightarrow> (Inl e, w)
                | Inr selected_ids \<Rightarrow>
                    if selected_ids = [] then (Inr None, w)
                    else
                      (let (all_users_data, w1) =
                             stackoverflow_extract_all clk env selected_ids [] w
                       in if all_users_data = [] then (Inr None, w1)
                          else
                            (let (filename, w2) =
                                   export_document clk ''stackoverflow''
                                     [(''users'', JList all_users_data),
                                      (''total_users'', JInt (int (length all_users_data)))]
                                     username w1
                             in (Inr (Some filename), w2))))))"

subsubsection \<open>YouTube\<close>

text \<open>
  \<open>yt_search\<close> answers with the items of the channel search, \<open>yt_statistics\<close> with the
  items of the second request, which carries the identifiers found by the first;
  \<open>yt_channel_items\<close> with the \<^verbatim>\<open>items\<close> member of the channel request, \<open>None\<close> when
  the body has none.
\<close>

record youtube_env =
  yt_api_key :: "string option"
  yt_search :: "string \<Rightarrow> json list http_result"
  yt_statistics :: "json list \<Rightarrow> yt_channel list http_result"
  yt_input :: string
  yt_channel_items :: "string \<Rightarrow> json list option http_result"
  yt_videos :: "string \<Rightarrow> json list http_result"
  yt_info_of :: "json \<Rightarrow> json"
  yt_video_of :: "json \<Rightarrow> json"

text \<open>\<^verbatim>\<open>YouTubeExtractor._search_channels\<close>\<close>

definition youtube_search_channels :: "youtube_env \<Rightarrow> string \<Rightarrow> yt_channel list option" where
  "youtube_search_channels env query =
     (case yt_search env query of
        RequestException \<Rightarrow> None
      | Response items \<Rightarrow>
          if items = [] then None
          else
            (case yt_statistics env items of
               RequestException \<Rightarrow> None
             | Response channels \<Rightarrow> Some channels))"

text \<open>\<^verbatim>\<open>YouTubeExtractor._get_channel_info\<close>\<close>

definition youtube_get_channel_info :: "youtube_env \<Rightarrow> string \<Rightarrow> json option" where
  "youtube_get_channel_info env channel_id =
     (case yt_channel_items env channel_id of
        RequestException \<Rightarrow> None
      | Response None \<Rightarrow> None
      | Response (Some []) \<Rightarrow> None
      | Response (Some (channel # _)) \<Rightarrow> Some (yt_info_of env channel))"

text \<open>\<^verbatim>\<open>YouTubeExtractor._get_videos\<close>\<close>

definition youtube_get_videos :: "youtube_env \<Rightarrow> string \<Rightarrow> json list" where
  "youtube_get_videos env channel_id =
     (case yt_videos env channel_id of
        RequestException \<Rightarrow> []
      | Response items \<Rightarrow> map (yt_video_of env) items)"

text \<open>\<^verbatim>\<open>YouTubeExtractor._extract_channel_data\<close>\<close>

definition youtube_extract_channel_data ::
  "clock \<Rightarrow> youtube_env \<Rightarrow> string \<Rightarrow> world \<Rightarrow> json option \<times> world" where
  "youtube_extract_channel_data clk env channel_id w =
     (case youtube_get_channel_info env channel_id of
        None \<Rightarrow> (None, w)
      | Some channel_info \<Rightarrow>
          (let videos = youtube_get_videos env channel_id;
               (t, w') = now clk w
           in (Some (JObj [(''channel_info'', channel_info), (''videos'', JList videos),
                           (''extraction_date'', JStr (isoformat t))]), w')))"

fun youtube_extract_all ::
  "clock \<Rightarrow> youtube_env \<Rightarrow> string list \<Rightarrow> json list \<Rightarrow> world \<Rightarrow> json list \<times> world" where
  "youtube_extract_all clk env [] all_channels_data w = (all_channels_data, w)"
| "youtube_extract_all clk env (channel_id # rest) all_channels_data w =
     (case youtube_extract_channel_data clk env channel_id w of
        (None, w') \<Rightarrow> youtube_extract_all clk env rest all_channels_data w'
      | (Some data, w') \<Rightarrow> youtube_extract_all clk env rest (all_channels_data @ [data]) w')"

text \<open>\<^verbatim>\<open>YouTubeExtractor.run\<close>: \<^verbatim>\<open>not self.api_key\<close> holds of \<^verbatim>\<open>None\<close> and of the empty string.\<close>

definition youtube_run ::
  "deps \<Rightarrow> clock \<Rightarrow> youtube_env \<Rightarrow> string \<Rightarrow> world
     \<Rightarrow> (py_error + string option) \<times> world" where
  "youtube_run d clk env username w =
     (if yt_api_key env = None \<or> yt_api_key env = Some [] then (Inr None, w)
      else if \<not> has_requests d then (Inr None, w)
      else
        (case youtube_search_channels env username of
           None \<Rightarrow> (Inr None, w)
         | Some channels \<Rightarrow>
             if channels = [] then (Inr None, w)
             else
               (case snd (select_channels channels (yt_input env)) of
                  Inl e \<Rightarrow> (Inl e, w)
                | Inr selected_ids \<Rightarrow>
                    if selected_ids = [] then (Inr None, w)
                    else
                      (let (all_channels_data, w1) =
                             youtube_extract_all clk env selected_ids [] w
                       in if all_channels_data = [] then (Inr None, w1)
                          else
                            (let (filename, w2) =
                                   export_document clk ''youtube''
                                     [(''channels'', JList all_channels_data),
                                      (''total_channels'', JInt (int (length all_channels_data)))]
                                     username w1
                             in (Inr (Some filename), w2))))))"

subsection \<open>All clients behind one interface\<close>

datatype platform =
  StackOverflow | YouTube | GitHub | Bluesky | Mastodon | Reddit | Medium | Telegram

fun platform_name :: "platform \<Rightarrow> string" where
  "platform_name StackOverflow = ''stackoverflow''"
| "platform_name YouTube = ''youtube''"
| "platform_name GitHub = ''github''"
| "platform_name Bluesky = ''bluesky''"
| "platform_name Mastodon = ''mastodon''"
| "platform_name Reddit = ''reddit''"
| "platform_name Medium = ''medium''"
| "platform_name Telegram = ''telegram''"

record environment =
  env_deps :: deps
  env_clock :: clock
  env_stackoverflow :: stackoverflow_env
  env_youtube :: youtube_env
  env_github :: github_env
  env_bluesky :: bluesky_env
  env_mastodon :: mastodon_env
  env_reddit :: reddit_env
  env_medium :: medium_env
  env_telegram :: telegram_env

definition returns :: "string option \<times> world \<Rightarrow> (py_error + string option) \<times> world" where
  "returns r = (Inr (fst r), snd r)"

text \<open>\<^verbatim>\<open>extractor.run(username)\<close> for the extractor of a platform.\<close>

fun run :: "environment \<Rightarrow> platform \<Rightarrow> string \<Rightarrow> world \<Rightarrow> (py_error + string option) \<times> world" where
  "run E StackOverflow username w =
     stackoverflow_run (env_deps E) (env_clock E) (env_stackoverflow E) username w"
| "run E YouTube username w =
     youtube_run (env_deps E) (env_clock E) (env_youtube E) username w"
| "run E GitHub username w =
     returns (github_run (env_deps E) (env_clock E) (env_github E) username w)"
| "run E Bluesky username w =
     returns (bluesky_run (env_deps E) (env_clock E) (env_bluesky E) username w)"
| "run E Mastodon username w =
     returns (mastodon_run (env_deps E) (env_clock E) (env_mastodon E) username w)"
| "run E Reddit username w =
     returns (reddit_run (env_deps E) (env_clock E) (env_reddit E) username w)"
| "run E Medium username w =
     returns (medium_run (env_deps E) (env_clock E) (env_medium E) username w)"
| "run E Telegram username w =
     returns (telegram_run (env_deps E) (env_clock E) (env_telegram E) username w)"

text \<open>
  The identity resolution of each client, as section 4.2 of the specification names it:
  the step whose result anchors the document. Medium has no separate step; its feed
  fetch stands for it.
\<close>

fun identity_resolved :: "environment \<Rightarrow> platform \<Rightarrow> string \<Rightarrow> bool" where
  "identity_resolved E StackOverflow username =
     (case stackoverflow_search_users (env_stackoverflow E) username of
        None \<Rightarrow> False | Some users \<Rightarrow> users \<noteq> [])"
| "identity_resolved E YouTube username =
     (case youtube_search_channels (env_youtube E) username of
        None \<Rightarrow> False | Some channels \<Rightarrow> channels \<noteq> [])"
| "identity_resolved E GitHub username =
     (github_get_user_info (env_github E) username \<noteq> None)"
| "identity_resolved E Bluesky username =
     (resolve_handle (env_bluesky E) username \<noteq> None)"
| "identity_resolved E Mastodon username =
     (mastodon_search_account (env_mastodon E) username \<noteq> None)"
| "identity_resolved E Reddit username =
     (reddit_get_user_info (env_reddit E) username \<noteq> None)"
| "identity_resolved E Medium username =
     (medium_fetch_articles (env_medium E) username \<noteq> None)"
| "identity_resolved E Telegram username =
     (telegram_get_entity_info (env_telegram E) username \<noteq> None)"

subsection \<open>The orchestrator\<close>


text \<open>
  How a call of \<^verbatim>\<open>extractor.run\<close> ends for its caller: it returns, it raises an
  exception of class \<^verbatim>\<open>Exception\<close>, or it is left by an interrupt
  (\<^verbatim>\<open>KeyboardInterrupt\<close>, \<^verbatim>\<open>SystemExit\<close>), which \<^verbatim>\<open>except Exception\<close> lets pass.
\<close>

datatype run_outcome = Returned "string option" | Raised | Interrupted


text \<open>
  What the loop of \<^verbatim>\<open>_run_extractions\<close> depends on: whether the extractor of a
  platform can be built, how its \<^verbatim>\<open>run\<close> ends in a given world, whether
  \<^verbatim>\<open>shutil.move\<close> of a file goes through, and the results directory.
\<close>

record orchestration =
  create_extractor :: "platform \<Rightarrow> bool"
  extractor_run :: "platform \<Rightarrow> string \<Rightarrow> world \<Rightarrow> run_outcome \<times> world"
  move_succeeds :: "string \<Rightarrow> bool"
  results_dir :: string







text \<open>The extractors of the model as the orchestrator sees them.\<close>

definition outcome_of :: "(py_error + string option) \<times> world \<Rightarrow> run_outcome \<times> world" where
  "outcome_of r =
     (case r of (Inl e, w) \<Rightarrow> (Raised, w) | (Inr filename, w) \<Rightarrow> (Returned filename, w))"

definition orchestration_of :: "environment \<Rightarrow> string \<Rightarrow> orchestration" where
  "orchestration_of E dir =
     \<lparr>create_extractor = (\<lambda>p. True),
      extractor_run = (\<lambda>p username w. outcome_of (run E p username w)),
      move_succeeds = (\<lambda>filename. True),
      results_dir = dir\<rparr>"

subsection \<open>The specification's wording of the Bluesky handle variants\<close>

text \<open>
  Following the specification's words: the literal input, then \<open>{input}.bsky.social\<close>,
  then \<open>{input}.com\<close>, for every input.
\<close>

definition spec_handles_to_try :: "string \<Rightarrow> string list" where
  "spec_handles_to_try raw = [raw, raw @ ''.bsky.social'', raw @ ''.com'']"

text \<open>A variant resolves when the directory answers with a DID that is not empty.\<close>

definition resolves_to_did :: "bluesky_env \<Rightarrow> string \<Rightarrow> bool" where
  "resolves_to_did env h \<longleftrightarrow>
     (case bs_resolve env h of
        Response (Some did) \<Rightarrow> did \<noteq> []
      | _ \<Rightarrow> False)"

definition did_of :: "bluesky_env \<Rightarrow> string \<Rightarrow> string option" where
  "did_of env h = (case bs_resolve env h of Response did \<Rightarrow> did | RequestException \<Rightarrow> None)"

subsection \<open>Mock paginated sources\<close>



subsection \<open>Example candidates\<close>

definition example_users :: "so_user list" where
  "example_users =
     [\<lparr>so_display_name = Some ''ada'', so_user_id = Some 11, so_reputation = 900\<rparr>,
      \<lparr>so_display_name = Some ''bob'', so_user_id = Some 12, so_reputation = 800\<rparr>,
      \<lparr>so_display_name = Some ''cy'', so_user_id = Some 13, so_reputation = 700\<rparr>,
      \<lparr>so_display_name = Some ''dee'', so_user_id = Some 14, so_reputation = 600\<rparr>,
      \<lparr>so_display_name = Some ''eve'', so_user_id = Some 15, so_reputation = 500\<rparr>]"

definition example_channels :: "yt_channel list" where
  "example_channels =
     [\<lparr>yt_id = Some ''UCa'', yt_title = Some ''ada'', yt_subscriberCount = Some ''1200'', yt_videoCount = Some ''40''\<rparr>,
      \<lparr>yt_id = Some ''UCb'', yt_title = Some ''bob'', yt_subscriberCount = None, yt_videoCount = Some ''7''\<rparr>,
      \<lparr>yt_id = Some ''UCc'', yt_title = Some ''cy'', yt_subscriberCount = Some ''15'', yt_videoCount = Some ''3''\<rparr>,
      \<lparr>yt_id = Some ''UCd'', yt_title = Some ''dee'', yt_subscriberCount = Some ''9'', yt_videoCount = Some ''2''\<rparr>,
      \<lparr>yt_id = Some ''UCe'', yt_title = Some ''eve'', yt_subscriberCount = Some ''1'', yt_videoCount = Some ''1''\<rparr>]"

subsection \<open>Example environments\<close>

definition example_time :: datetime where
  "example_time =
     \<lparr>year = 2024, month = 1, day = 2, hour = 3, minute = 4, second = 5, microsecond = 678\<rparr>"

definition example_clock :: clock where
  "example_clock = (\<lambda>n. example_time)"

definition example_deps :: deps where
  "example_deps = \<lparr>has_requests = True, has_telethon = True\<rparr>"

text \<open>A GitHub whose profile request answers for \<open>octocat\<close> only and whose events request fails.\<close>

definition example_github :: github_env where
  "example_github =
     \<lparr>gh_user = (\<lambda>u. if u = ''octocat'' then Response (JObj [(''login'', JStr ''octocat'')])
                       else RequestException),
      gh_repos = (\<lambda>u. Response [JStr ''hello'', JStr ''world'']),
      gh_events = (\<lambda>u. RequestException),
      gh_info_of = (\<lambda>j. j), gh_repo_of = (\<lambda>j. j), gh_event_of = (\<lambda>j. j)\<rparr>"

text \<open>A Medium whose feed for \<open>quiet\<close> parses and has no item, and fails for everyone else.\<close>

definition example_medium :: medium_env where
  "example_medium =
     \<lparr>md_feed = (\<lambda>u. if u = ''quiet'' then Response (Feed []) else RequestException),
      md_article_of = (\<lambda>j. j)\<rparr>"

definition empty_world :: world where
  "empty_world = \<lparr>files = [], ticks = 0\<rparr>"

definition quoted :: "string \<Rightarrow> string" where
  "quoted s = [CHR 0x22] @ s @ [CHR 0x22]"

definition example_stackoverflow :: stackoverflow_env where
  "example_stackoverflow =
     \<lparr>so_search = (\<lambda>u. if u = ''ada'' then Response example_users else RequestException),
      so_input = ''1,3'',
      so_profile = (\<lambda>i. Response (Some [JInt i])),
      so_questions = (\<lambda>i. RequestException),
      so_answers = (\<lambda>i. Response None),
      so_badges = (\<lambda>i. Response (Some [])),
      so_info_of = (\<lambda>j. j)\<rparr>"

definition example_youtube :: youtube_env where
  "example_youtube =
     \<lparr>yt_api_key = Some ''key'',
      yt_search = (\<lambda>q. if q = ''ada'' then Response [JStr q] else Response []),
      yt_statistics = (\<lambda>items. Response example_channels),
      yt_input = ''2'',
      yt_channel_items = (\<lambda>c. Response (Some [JStr c])),
      yt_videos = (\<lambda>c. Response []),
      yt_info_of = (\<lambda>j. j), yt_video_of = (\<lambda>j. j)\<rparr>"

text \<open>
  A Bluesky directory that knows \<open>ada.bsky.social\<close> and \<open>bob.dev.bsky.social\<close>, and an
  author feed of three pages of two posts each, the last one without a cursor.
\<close>

definition example_bluesky :: bluesky_env where
  "example_bluesky =
     \<lparr>bs_resolve = (\<lambda>h. if h = ''ada.bsky.social'' then Response (Some ''did:plc:ada'')
                          else if h = ''bob.dev.bsky.social'' then Response (Some ''did:plc:bob'')
                          else RequestException),
      bs_profile = (\<lambda>actor. Response (JStr actor)),
      bs_author_feed = (\<lambda>k actor cursor.
         Response \<lparr>pg_feed = [JInt (int k), JInt (int k)],
                   pg_cursor = (if k < 2 then Some ''more'' else None)\<rparr>),
      bs_profile_of = (\<lambda>j. j), bs_post_of = (\<lambda>j. j)\<rparr>"

definition example_link :: string where
  "example_link =
     ''<https://infosec.exchange/next>; rel='' @ quoted ''next''
     @ '', <https://infosec.exchange/prev>; rel='' @ quoted ''prev''"

text \<open>A Mastodon instance with three pages of two statuses, the last without a \<open>Link\<close> header.\<close>

definition example_mastodon :: mastodon_env where
  "example_mastodon =
     \<lparr>ms_instance = ''infosec.exchange'',
      ms_lookup = (\<lambda>u. if u = ''ada'' then Response (JStr u) else RequestException),
      ms_statuses = (\<lambda>k url.
         Response \<lparr>pg_statuses = [JInt (int k), JInt (int k)],
                   pg_link = (if k < 2 then example_link else [])\<rparr>),
      ms_account_of = (\<lambda>j. j), ms_account_id = (\<lambda>j. ''42''), ms_status_of = (\<lambda>j. j)\<rparr>"

definition example_reddit :: reddit_env where
  "example_reddit =
     \<lparr>rd_about = (\<lambda>u. if u = ''ada'' then Response (Some (JStr u)) else Response None),
      rd_submitted = (\<lambda>u. Response (Some [JStr ''post''])),
      rd_comments = (\<lambda>u. RequestException),
      rd_info_of = (\<lambda>j. j), rd_post_of = (\<lambda>j. j), rd_comment_of = (\<lambda>j. j)\<rparr>"

definition example_telegram :: telegram_env where
  "example_telegram =
     \<lparr>tg_api_id = Some 12345, tg_api_hash = Some ''hash'', tg_connect = True,
      tg_get_entity = (\<lambda>u. if u = ''ada'' then Some (JStr u) else None),
      tg_iter_messages = (\<lambda>u n. Yields (take n [JInt 1, JInt 2, JInt 3])),
      tg_info_of = (\<lambda>j. j), tg_message_of = (\<lambda>j. j)\<rparr>"

definition example_env :: environment where
  "example_env =
     \<lparr>env_deps = example_deps, env_clock = example_clock,
      env_stackoverflow = example_stackoverflow, env_youtube = example_youtube,
      env_github = example_github, env_bluesky = example_bluesky,
      env_mastodon = example_mastodon, env_reddit = example_reddit,
      env_medium = example_medium, env_telegram = example_telegram\<rparr>"






section \<open>Properties\<close>

subsection \<open>Candidate selection\<close>


lemma parse_parts_range:
  "parse_parts n ts acc = Inr r \<Longrightarrow> \<forall>i\<in>set acc. i < n \<Longrightarrow> \<forall>i\<in>set r. i < n"
proof (induction ts arbitrary: acc)
  case Nil
  then show ?case by simp
next
  case (Cons t ts)
  show ?case
  proof (cases "py_int (strip t)")
    case None
    with Cons.prems(1) show ?thesis by simp
  next
    case (Some v)
    define acc' where "acc' = (if 0 \<le> v - 1 \<and> v - 1 < int n then acc @ [nat (v - 1)] else acc)"
    have step: "parse_parts n ts acc' = Inr r"
      using Cons.prems(1) Some by (simp add: acc'_def Let_def)
    have "\<forall>i\<in>set acc'. i < n"
      using Cons.prems(2) by (auto simp: acc'_def)
    with step show ?thesis by (rule Cons.IH)
  qed
qed

lemma parse_parts_error: "parse_parts n ts acc = Inl e \<Longrightarrow> e = ValueError"
proof (induction ts arbitrary: acc)
  case Nil
  then show ?case by simp
next
  case (Cons t ts)
  then show ?case
    by (cases "py_int (strip t)") (auto simp: Let_def split: if_splits)
qed

lemma parse_parts_bad_token:
  "\<exists>t\<in>set ts. py_int (strip t) = None \<Longrightarrow> parse_parts n ts acc = Inl ValueError"
proof (induction ts arbitrary: acc)
  case Nil
  then show ?case by simp
next
  case (Cons t ts)
  then show ?case
    by (cases "py_int (strip t)") (auto simp: Let_def)
qed

lemma subscripts_wf:
  "\<forall>i\<in>set is. i < length xs \<Longrightarrow> \<forall>x\<in>set xs. key x \<noteq> None \<Longrightarrow>
   subscripts xs key is = Inr (map (\<lambda>i. the (key (xs ! i))) is)"
proof (induction "is")
  case Nil
  then show ?case by simp
next
  case (Cons i "is")
  then have "key (xs ! i) \<noteq> None" by simp
  then obtain v where "key (xs ! i) = Some v" by blast
  with Cons show ?case by simp
qed

lemma selected_indices_of_cases:
  assumes "0 < n"
  shows "selected_indices_of w n choice = Inl ValueError
       \<or> (\<exists>log sel. selected_indices_of w n choice = Inr (log, sel) \<and> sel \<noteq> [] \<and> (\<forall>i\<in>set sel. i < n))"
proof (cases "choice = []")
  case True
  with assms show ?thesis by (simp add: selected_indices_of_def)
next
  case False
  show ?thesis
  proof (cases "parse_parts n (split_on CHR '','' choice) []")
    case (Inl e)
    then have "e = ValueError" by (rule parse_parts_error)
    with Inl False show ?thesis by (simp add: selected_indices_of_def)
  next
    case (Inr sel)
    have rng: "\<forall>i\<in>set sel. i < n"
      by (rule parse_parts_range [OF Inr]) simp
    show ?thesis
    proof (cases "sel = []")
      case True
      have "selected_indices_of w n choice = Inr ([UiWarning w], [0])"
        unfolding selected_indices_of_def using False Inr True by simp
      with assms show ?thesis by simp
    next
      case nonempty: False
      have "selected_indices_of w n choice = Inr ([], sel)"
        unfolding selected_indices_of_def using False Inr nonempty by simp
      with rng nonempty show ?thesis by simp
    qed
  qed
qed

lemma wf_users_keys:
  "wf_users users \<Longrightarrow> u \<in> set users \<Longrightarrow> so_display_name u \<noteq> None \<and> so_user_id u \<noteq> None"
  by (simp add: wf_users_def list_all_iff)

lemma select_user_try_wf:
  assumes wf: "wf_users users"
    and sel: "selected_indices_of so_warning (length users) choice = Inr (log, sel)"
    and rng: "\<forall>i\<in>set sel. i < length users"
  shows "select_user_try users choice =
           (log @ [UiSelected (map (\<lambda>i. the (so_display_name (users ! i))) sel)],
            Inr (map (\<lambda>i. the (so_user_id (users ! i))) sel))"
proof -
  have names: "subscripts users so_display_name sel = Inr (map (\<lambda>i. the (so_display_name (users ! i))) sel)"
    using rng wf by (intro subscripts_wf) (auto dest: wf_users_keys)
  have ids: "subscripts users so_user_id sel = Inr (map (\<lambda>i. the (so_user_id (users ! i))) sel)"
    using rng wf by (intro subscripts_wf) (auto dest: wf_users_keys)
  show ?thesis
    unfolding select_user_try_def by (simp add: sel names ids)
qed

lemma select_user_fallback:
  assumes wf: "wf_users users" and ne: "users \<noteq> []"
    and sel: "selected_indices_of so_warning (length users) (strip raw) = Inl ValueError"
  shows "snd (select_user users raw) = Inr [the (so_user_id (hd users))]"
    and "UiWarning so_warning \<in> set (fst (select_user users raw))"
proof -
  obtain u rest where users: "users = u # rest" using ne by (cases users) auto
  have "so_user_id u \<noteq> None" using wf users by (auto dest: wf_users_keys)
  then obtain i where i: "so_user_id u = Some i" by blast
  have tr: "select_user_try users (strip raw) = ([], Inl ValueError)"
    unfolding select_user_try_def by (simp add: sel)
  show "snd (select_user users raw) = Inr [the (so_user_id (hd users))]"
    unfolding select_user_def tr using users i by simp
  show "UiWarning so_warning \<in> set (fst (select_user users raw))"
    unfolding select_user_def tr using users i by simp
qed

lemma select_user_selected:
  assumes wf: "wf_users users"
    and sel: "selected_indices_of so_warning (length users) (strip raw) = Inr (log, sel)"
    and rng: "\<forall>i\<in>set sel. i < length users"
  shows "snd (select_user users raw) = Inr (map (\<lambda>i. the (so_user_id (users ! i))) sel)"
    and "set log \<subseteq> set (fst (select_user users raw))"
  unfolding select_user_def select_user_try_wf [OF wf sel rng] by auto

lemma strip_examples:
  "strip '''' = ''''" "strip ''1,3'' = ''1,3''" "strip ''99'' = ''99''" "strip ''2,abc'' = ''2,abc''"
  by code_simp+

lemma indices_1_3: "selected_indices_of w 5 ''1,3'' = Inr ([], [0, 2])"
  by code_simp

lemma py_int_99: "py_int (strip ''99'') = Some 99"
  by code_simp

lemma indices_99: "n < 99 \<Longrightarrow> selected_indices_of w n ''99'' = Inr ([UiWarning w], [0])"
  by (simp add: selected_indices_of_def py_int_99)

lemma indices_empty: "selected_indices_of w n '''' = Inr ([], [0 ..< n])"
  by (simp add: selected_indices_of_def)

lemma wf_channels_keys:
  "wf_channels channels \<Longrightarrow> c \<in> set channels \<Longrightarrow> yt_id c \<noteq> None \<and> yt_title c \<noteq> None"
  by (simp add: wf_channels_def list_all_iff)

lemma stat_count_cases: "stat_count v \<noteq> Inl ValueError \<Longrightarrow> \<exists>k. stat_count v = Inr k"
  by (cases v) (auto simp: stat_count_def split: option.splits)

lemma channel_listing_wf:
  "\<forall>c\<in>set cs. stat_count (yt_subscriberCount c) \<noteq> Inl ValueError
               \<and> stat_count (yt_videoCount c) \<noteq> Inl ValueError \<Longrightarrow>
   \<exists>items. channel_listing cs = Inr items"
proof (induction cs)
  case Nil
  then show ?case by simp
next
  case (Cons c cs)
  have "stat_count (yt_subscriberCount c) \<noteq> Inl ValueError" using Cons.prems by simp
  then obtain a where a: "stat_count (yt_subscriberCount c) = Inr a"
    by (blast dest: stat_count_cases)
  have "stat_count (yt_videoCount c) \<noteq> Inl ValueError" using Cons.prems by simp
  then obtain b where b: "stat_count (yt_videoCount c) = Inr b"
    by (blast dest: stat_count_cases)
  have "\<exists>items. channel_listing cs = Inr items"
    by (rule Cons.IH) (use Cons.prems in simp)
  then obtain items where "channel_listing cs = Inr items" by blast
  then show ?case by (simp add: a b)
qed

lemma channel_listing_take:
  assumes "wf_channels channels"
  shows "\<exists>items. channel_listing (take 10 channels) = Inr items"
proof (rule channel_listing_wf)
  show "\<forall>c\<in>set (take 10 channels). stat_count (yt_subscriberCount c) \<noteq> Inl ValueError
               \<and> stat_count (yt_videoCount c) \<noteq> Inl ValueError"
    using assms by (auto simp: wf_channels_def list_all_iff dest: in_set_takeD)
qed

lemma select_channels_try_wf:
  assumes wf: "wf_channels channels"
    and sel: "selected_indices_of yt_warning (length channels) choice = Inr (log, sel)"
    and rng: "\<forall>i\<in>set sel. i < length channels"
  shows "select_channels_try channels choice =
           (log @ [UiSelected (map (\<lambda>i. the (yt_title (channels ! i))) sel)],
            Inr (map (\<lambda>i. the (yt_id (channels ! i))) sel))"
proof -
  have names: "subscripts channels yt_title sel = Inr (map (\<lambda>i. the (yt_title (channels ! i))) sel)"
    using rng wf by (intro subscripts_wf) (auto dest: wf_channels_keys)
  have ids: "subscripts channels yt_id sel = Inr (map (\<lambda>i. the (yt_id (channels ! i))) sel)"
    using rng wf by (intro subscripts_wf) (auto dest: wf_channels_keys)
  show ?thesis
    unfolding select_channels_try_def by (simp add: sel names ids)
qed

lemma select_channels_fallback:
  assumes wf: "wf_channels channels" and ne: "channels \<noteq> []"
    and sel: "selected_indices_of yt_warning (length channels) (strip raw) = Inl ValueError"
  shows "snd (select_channels channels raw) = Inr [the (yt_id (hd channels))]"
    and "UiWarning yt_warning \<in> set (fst (select_channels channels raw))"
proof -
  obtain c rest where channels: "channels = c # rest" using ne by (cases channels) auto
  have "yt_id c \<noteq> None" using wf channels by (auto dest: wf_channels_keys)
  then obtain i where i: "yt_id c = Some i" by blast
  obtain items where items: "channel_listing (take 10 channels) = Inr items"
    using channel_listing_take [OF wf] by blast
  have tr: "select_channels_try channels (strip raw) = ([], Inl ValueError)"
    unfolding select_channels_try_def by (simp add: sel)
  show "snd (select_channels channels raw) = Inr [the (yt_id (hd channels))]"
    unfolding select_channels_def items tr using channels i by simp
  show "UiWarning yt_warning \<in> set (fst (select_channels channels raw))"
    unfolding select_channels_def items tr using channels i by simp
qed

lemma select_channels_selected:
  assumes wf: "wf_channels channels"
    and sel: "selected_indices_of yt_warning (length channels) (strip raw) = Inr (log, sel)"
    and rng: "\<forall>i\<in>set sel. i < length channels"
  shows "snd (select_channels channels raw) = Inr (map (\<lambda>i. the (yt_id (channels ! i))) sel)"
    and "set log \<subseteq> set (fst (select_channels channels raw))"
proof -
  obtain items where items: "channel_listing (take 10 channels) = Inr items"
    using channel_listing_take [OF wf] by blast
  show "snd (select_channels channels raw) = Inr (map (\<lambda>i. the (yt_id (channels ! i))) sel)"
    unfolding select_channels_def items select_channels_try_wf [OF wf sel rng] by simp
  show "set log \<subseteq> set (fst (select_channels channels raw))"
    unfolding select_channels_def items select_channels_try_wf [OF wf sel rng] by auto
qed

lemma select_user_nonempty:
  assumes wf: "wf_users users" and ne: "users \<noteq> []"
  shows "\<exists>ids. snd (select_user users raw) = Inr ids \<and> ids \<noteq> []"
proof -
  have "0 < length users" using ne by simp
  from selected_indices_of_cases [OF this, of so_warning "strip raw"]
  show ?thesis
  proof (elim disjE exE conjE)
    assume "selected_indices_of so_warning (length users) (strip raw) = Inl ValueError"
    from select_user_fallback(1) [OF wf ne this] show ?thesis by simp
  next
    fix log sel
    assume sel: "selected_indices_of so_warning (length users) (strip raw) = Inr (log, sel)"
      and "sel \<noteq> []" and rng: "\<forall>i\<in>set sel. i < length users"
    with select_user_selected(1) [OF wf sel rng] show ?thesis by simp
  qed
qed

lemma select_channels_nonempty:
  assumes wf: "wf_channels channels" and ne: "channels \<noteq> []"
  shows "\<exists>ids. snd (select_channels channels raw) = Inr ids \<and> ids \<noteq> []"
proof -
  have "0 < length channels" using ne by simp
  from selected_indices_of_cases [OF this, of yt_warning "strip raw"]
  show ?thesis
  proof (elim disjE exE conjE)
    assume "selected_indices_of yt_warning (length channels) (strip raw) = Inl ValueError"
    from select_channels_fallback(1) [OF wf ne this] show ?thesis by simp
  next
    fix log sel
    assume sel: "selected_indices_of yt_warning (length channels) (strip raw) = Inr (log, sel)"
      and "sel \<noteq> []" and rng: "\<forall>i\<in>set sel. i < length channels"
    with select_channels_selected(1) [OF wf sel rng] show ?thesis by simp
  qed
qed

lemma map_nth_upt: "map (\<lambda>i. f (xs ! i)) [0 ..< length xs] = map f xs"
  by (rule nth_equalityI) simp_all

text \<open>
  Claim C3. For a non-empty list of candidates that carry the keys the selection reads:
  the input \<^verbatim>\<open>1,3\<close> against five candidates selects the first and the third, the
  empty input selects all candidates, the input \<^verbatim>\<open>99\<close> selects the first candidate
  alone and logs the warning, and for every input string the selection returns a
  non-empty list of identifiers without raising. Stack Overflow and YouTube alike.
\<close>

theorem selection_examples_and_totality:
  assumes "users \<noteq> []" and "wf_users users" and "channels \<noteq> []" and "wf_channels channels"
  shows
    "(length users = 5 \<longrightarrow>
        snd (select_user users ''1,3'') = Inr [the (so_user_id (users ! 0)), the (so_user_id (users ! 2))])
     \<and> (length channels = 5 \<longrightarrow>
        snd (select_channels channels ''1,3'') = Inr [the (yt_id (channels ! 0)), the (yt_id (channels ! 2))])
     \<and> snd (select_user users '''') = Inr (map (\<lambda>u. the (so_user_id u)) users)
     \<and> snd (select_channels channels '''') = Inr (map (\<lambda>c. the (yt_id c)) channels)
     \<and> (length users < 99 \<longrightarrow>
        snd (select_user users ''99'') = Inr [the (so_user_id (users ! 0))]
        \<and> UiWarning so_warning \<in> set (fst (select_user users ''99'')))
     \<and> (length channels < 99 \<longrightarrow>
        snd (select_channels channels ''99'') = Inr [the (yt_id (channels ! 0))]
        \<and> UiWarning yt_warning \<in> set (fst (select_channels channels ''99'')))
     \<and> (\<forall>raw. \<exists>ids. snd (select_user users raw) = Inr ids \<and> ids \<noteq> [])
     \<and> (\<forall>raw. \<exists>ids. snd (select_channels channels raw) = Inr ids \<and> ids \<noteq> [])"
proof (intro conjI impI allI)
  assume len: "length users = 5"
  have "selected_indices_of so_warning (length users) (strip ''1,3'') = Inr ([], [0, 2])"
    by (simp add: len strip_examples indices_1_3)
  from select_user_selected(1) [OF assms(2) this]
  show "snd (select_user users ''1,3'') = Inr [the (so_user_id (users ! 0)), the (so_user_id (users ! 2))]"
    by (simp add: len)
next
  assume len: "length channels = 5"
  have "selected_indices_of yt_warning (length channels) (strip ''1,3'') = Inr ([], [0, 2])"
    by (simp add: len strip_examples indices_1_3)
  from select_channels_selected(1) [OF assms(4) this]
  show "snd (select_channels channels ''1,3'') = Inr [the (yt_id (channels ! 0)), the (yt_id (channels ! 2))]"
    by (simp add: len)
next
  have "selected_indices_of so_warning (length users) (strip '''') = Inr ([], [0 ..< length users])"
    by (simp add: strip_examples indices_empty)
  from select_user_selected(1) [OF assms(2) this]
  show "snd (select_user users '''') = Inr (map (\<lambda>u. the (so_user_id u)) users)"
    by (simp add: map_nth_upt [of "\<lambda>u. the (so_user_id u)"])
next
  have "selected_indices_of yt_warning (length channels) (strip '''') = Inr ([], [0 ..< length channels])"
    by (simp add: strip_examples indices_empty)
  from select_channels_selected(1) [OF assms(4) this]
  show "snd (select_channels channels '''') = Inr (map (\<lambda>c. the (yt_id c)) channels)"
    by (simp add: map_nth_upt [of "\<lambda>c. the (yt_id c)"])
next
  assume len: "length users < 99"
  have sel: "selected_indices_of so_warning (length users) (strip ''99'') = Inr ([UiWarning so_warning], [0])"
    by (simp add: len strip_examples indices_99)
  have rng: "\<forall>i\<in>set [0::nat]. i < length users" using assms(1) by simp
  from select_user_selected(1) [OF assms(2) sel rng]
  show "snd (select_user users ''99'') = Inr [the (so_user_id (users ! 0))]" by simp
  from select_user_selected(2) [OF assms(2) sel rng]
  show "UiWarning so_warning \<in> set (fst (select_user users ''99''))" by simp
next
  assume len: "length channels < 99"
  have sel: "selected_indices_of yt_warning (length channels) (strip ''99'') = Inr ([UiWarning yt_warning], [0])"
    by (simp add: len strip_examples indices_99)
  have rng: "\<forall>i\<in>set [0::nat]. i < length channels" using assms(3) by simp
  from select_channels_selected(1) [OF assms(4) sel rng]
  show "snd (select_channels channels ''99'') = Inr [the (yt_id (channels ! 0))]" by simp
  from select_channels_selected(2) [OF assms(4) sel rng]
  show "UiWarning yt_warning \<in> set (fst (select_channels channels ''99''))" by simp
next
  fix raw
  show "\<exists>ids. snd (select_user users raw) = Inr ids \<and> ids \<noteq> []"
    by (rule select_user_nonempty [OF assms(2) assms(1)])
next
  fix raw
  show "\<exists>ids. snd (select_channels channels raw) = Inr ids \<and> ids \<noteq> []"
    by (rule select_channels_nonempty [OF assms(4) assms(3)])
qed

lemma example_users_wf: "example_users \<noteq> [] \<and> wf_users example_users \<and> length example_users = 5"
  by (simp add: example_users_def wf_users_def)

lemma example_channels_wf:
  "example_channels \<noteq> [] \<and> wf_channels example_channels \<and> length example_channels = 5"
  unfolding example_channels_def wf_channels_def by code_simp

theorem selection_examples_and_totality_witness:
  "example_users \<noteq> [] \<and> wf_users example_users \<and> example_channels \<noteq> [] \<and> wf_channels example_channels
   \<and> length example_users = 5 \<and> length example_channels = 5
   \<and> snd (select_user example_users ''1,3'') = Inr [11, 13]
   \<and> snd (select_channels example_channels ''1,3'') = Inr [''UCa'', ''UCc'']
   \<and> snd (select_user example_users '''') = Inr [11, 12, 13, 14, 15]
   \<and> snd (select_channels example_channels ''99'') = Inr [''UCa'']
   \<and> (\<exists>ids. snd (select_user example_users ''x'') = Inr ids \<and> ids \<noteq> [])"
proof -
  have u: "example_users \<noteq> []" "wf_users example_users" "length example_users = 5"
    using example_users_wf by simp_all
  have c: "example_channels \<noteq> []" "wf_channels example_channels" "length example_channels = 5"
    using example_channels_wf by simp_all
  have vals: "map (\<lambda>u. the (so_user_id u)) example_users = [11, 12, 13, 14, 15]"
    "the (so_user_id (example_users ! 0)) = 11" "the (so_user_id (example_users ! 2)) = 13"
    "the (yt_id (example_channels ! 0)) = ''UCa''" "the (yt_id (example_channels ! 2)) = ''UCc''"
    by (simp_all add: example_users_def example_channels_def)
  show ?thesis
    using selection_examples_and_totality [OF u(1) u(2) c(1) c(2)] u c vals by simp
qed

lemma indices_bad_token:
  assumes "choice \<noteq> []"
    and "\<exists>t\<in>set (split_on CHR '','' choice). py_int (strip t) = None"
  shows "selected_indices_of w n choice = Inl ValueError"
  unfolding selected_indices_of_def
  using assms(1) parse_parts_bad_token [OF assms(2), of n "[]"] by simp

text \<open>
  Claim C9. When the input is not empty and one of its comma-separated tokens is no
  integer, both selections return the identifier of the first candidate alone, whatever
  indices the other tokens named. (The empty input is not split into tokens: it selects
  all candidates.)
\<close>

theorem unparsable_token_selects_first_only:
  assumes "users \<noteq> []" and "wf_users users" and "channels \<noteq> []" and "wf_channels channels"
    and "strip raw \<noteq> []"
    and "\<exists>t\<in>set (split_on CHR '','' (strip raw)). py_int (strip t) = None"
  shows "snd (select_user users raw) = Inr [the (so_user_id (hd users))]
       \<and> UiWarning so_warning \<in> set (fst (select_user users raw))
       \<and> snd (select_channels channels raw) = Inr [the (yt_id (hd channels))]
       \<and> UiWarning yt_warning \<in> set (fst (select_channels channels raw))"
proof -
  have so: "selected_indices_of so_warning (length users) (strip raw) = Inl ValueError"
    by (rule indices_bad_token [OF assms(5) assms(6)])
  have yt: "selected_indices_of yt_warning (length channels) (strip raw) = Inl ValueError"
    by (rule indices_bad_token [OF assms(5) assms(6)])
  show ?thesis
    using select_user_fallback [OF assms(2) assms(1) so]
      select_channels_fallback [OF assms(4) assms(3) yt]
    by simp
qed

lemma bad_token_example:
  "strip ''2,abc'' \<noteq> [] \<and> (\<exists>t\<in>set (split_on CHR '','' (strip ''2,abc'')). py_int (strip t) = None)"
  by code_simp

theorem unparsable_token_selects_first_only_witness:
  "example_users \<noteq> [] \<and> wf_users example_users
   \<and> example_channels \<noteq> [] \<and> wf_channels example_channels
   \<and> strip ''2,abc'' \<noteq> []
   \<and> (\<exists>t\<in>set (split_on CHR '','' (strip ''2,abc'')). py_int (strip t) = None)
   \<and> snd (select_user example_users ''2,abc'') = Inr [11]
   \<and> snd (select_channels example_channels ''2,abc'') = Inr [''UCa'']"
proof -
  have u: "example_users \<noteq> []" "wf_users example_users"
    using example_users_wf by simp_all
  have c: "example_channels \<noteq> []" "wf_channels example_channels"
    using example_channels_wf by simp_all
  have b: "strip ''2,abc'' \<noteq> []"
    "\<exists>t\<in>set (split_on CHR '','' (strip ''2,abc'')). py_int (strip t) = None"
    using bad_token_example by simp_all
  have vals: "the (so_user_id (hd example_users)) = 11" "the (yt_id (hd example_channels)) = ''UCa''"
    by (simp_all add: example_users_def example_channels_def)
  show ?thesis
    using unparsable_token_selects_first_only [OF u c b] u c b vals by simp
qed

subsection \<open>Medium: an empty feed\<close>

text \<open>
  Claim C10. When the Medium feed is fetched and parsed and has no item, \<open>run\<close> returns
  \<^verbatim>\<open>None\<close> and leaves the world as it was: the very result of a failed fetch and of a
  feed that does not parse.
\<close>

theorem medium_empty_feed_is_failure:
  assumes "md_feed env username = Response (Feed [])"
  shows "medium_fetch_articles env username = Some []
       \<and> medium_run d clk env username w = (None, w)
       \<and> (\<forall>env'. md_feed env' username = RequestException \<or> md_feed env' username = Response ParseError
             \<longrightarrow> medium_run d clk env' username w = medium_run d clk env username w)"
proof (intro conjI allI impI)
  show fetched: "medium_fetch_articles env username = Some []"
    using assms by (simp add: medium_fetch_articles_def)
  show none: "medium_run d clk env username w = (None, w)"
    by (simp add: medium_run_def fetched)
  fix env' :: medium_env
  assume "md_feed env' username = RequestException \<or> md_feed env' username = Response ParseError"
  then have "medium_fetch_articles env' username = None"
    by (auto simp: medium_fetch_articles_def)
  then have "medium_run d clk env' username w = (None, w)"
    by (simp add: medium_run_def)
  then show "medium_run d clk env' username w = medium_run d clk env username w"
    by (simp add: none)
qed

theorem medium_empty_feed_is_failure_witness:
  "md_feed example_medium ''quiet'' = Response (Feed [])
   \<and> medium_run example_deps example_clock example_medium ''quiet'' empty_world = (None, empty_world)
   \<and> medium_run example_deps example_clock example_medium ''other'' empty_world
       = medium_run example_deps example_clock example_medium ''quiet'' empty_world"
proof -
  have feed: "md_feed example_medium ''quiet'' = Response (Feed [])"
    by (simp add: example_medium_def)
  have other: "medium_run example_deps example_clock example_medium ''other'' empty_world
                 = (None, empty_world)"
    by (simp add: medium_run_def medium_fetch_articles_def example_medium_def example_deps_def)
  show ?thesis
    using medium_empty_feed_is_failure [OF feed, of example_deps example_clock empty_world]
      feed other
    by simp
qed

subsection \<open>GitHub: a degraded collection and a fatal profile\<close>

lemma export_document_result:
  "export_document clk name sections username w =
     (name @ ''_'' @ username @ ''_'' @ strftime_stamp (clk (Suc (ticks w))) @ ''.json'',
      \<lparr>files = files w @ [(name @ ''_'' @ username @ ''_'' @ strftime_stamp (clk (Suc (ticks w))) @ ''.json'',
                            JObj (sections @ [(''extraction_date'', JStr (isoformat (clk (ticks w))))]))],
       ticks = Suc (Suc (ticks w))\<rparr>)"
  by (simp add: export_document_def save_json_def now_def Let_def)

lemma jfield_events:
  "jfield ''events'' (JObj ([(''user_info'', a), (''repositories'', b), (''events'', c)] @ rest)) = Some c"
  by simp

text \<open>
  Claim C6. When the events request of GitHub fails while the profile request is
  answered, \<open>run\<close> still returns a file name and the one document it writes has the empty
  list under \<open>events\<close>; when the profile request fails, \<open>run\<close> returns \<^verbatim>\<open>None\<close> and
  writes nothing.
\<close>

theorem github_events_degraded_profile_fatal:
  assumes "has_requests d"
  shows "(gh_user env username = Response user \<and> gh_events env username = RequestException \<longrightarrow>
            (\<exists>filename doc w'.
               github_run d clk env username w = (Some filename, w')
               \<and> files w' = files w @ [(filename, doc)]
               \<and> jfield ''events'' doc = Some (JList [])))
       \<and> (gh_user env username = RequestException \<longrightarrow>
            github_run d clk env username w = (None, w))"
proof (intro conjI impI)
  assume a: "gh_user env username = Response user \<and> gh_events env username = RequestException"
  have info: "github_get_user_info env username = Some (gh_info_of env user)"
    using a by (simp add: github_get_user_info_def)
  have events: "github_get_events env username = []"
    using a by (simp add: github_get_events_def)
  show "\<exists>filename doc w'.
          github_run d clk env username w = (Some filename, w')
          \<and> files w' = files w @ [(filename, doc)]
          \<and> jfield ''events'' doc = Some (JList [])"
    unfolding github_run_def info events export_document_result
    using assms by (simp add: jfield_events)
next
  assume "gh_user env username = RequestException"
  then have "github_get_user_info env username = None"
    by (simp add: github_get_user_info_def)
  then show "github_run d clk env username w = (None, w)"
    by (simp add: github_run_def)
qed

theorem github_events_degraded_profile_fatal_witness:
  "has_requests example_deps
   \<and> gh_user example_github ''octocat'' = Response (JObj [(''login'', JStr ''octocat'')])
   \<and> gh_events example_github ''octocat'' = RequestException
   \<and> gh_user example_github ''nobody'' = RequestException
   \<and> (\<exists>filename doc w'.
         github_run example_deps example_clock example_github ''octocat'' empty_world = (Some filename, w')
         \<and> files w' = files empty_world @ [(filename, doc)]
         \<and> jfield ''events'' doc = Some (JList []))
   \<and> github_run example_deps example_clock example_github ''nobody'' empty_world = (None, empty_world)"
proof -
  have d: "has_requests example_deps" by (simp add: example_deps_def)
  have u: "gh_user example_github ''octocat'' = Response (JObj [(''login'', JStr ''octocat'')])"
    "gh_events example_github ''octocat'' = RequestException"
    "gh_user example_github ''nobody'' = RequestException"
    by (simp_all add: example_github_def)
  show ?thesis
    using github_events_degraded_profile_fatal [OF d, of example_github "''octocat''"
        "JObj [(''login'', JStr ''octocat'')]" example_clock empty_world]
      github_events_degraded_profile_fatal [OF d, of example_github "''nobody''"
        "JObj [(''login'', JStr ''octocat'')]" example_clock empty_world]
      d u
    by simp
qed

subsection \<open>Unresolved identities\<close>

text \<open>
  Claim C7. For every platform client: when the identity resolution fails, \<open>run\<close>
  returns \<^verbatim>\<open>None\<close> and the world is as before, so no file has been written.
\<close>

theorem unresolved_identity_writes_nothing:
  assumes "\<not> identity_resolved E p username"
  shows "run E p username w = (Inr None, w)"
proof (cases p)
  case StackOverflow
  with assms show ?thesis
    by (simp add: stackoverflow_run_def split: option.splits)
next
  case YouTube
  with assms show ?thesis
    by (simp add: youtube_run_def split: option.splits)
next
  case GitHub
  with assms show ?thesis
    by (simp add: github_run_def returns_def)
next
  case Bluesky
  with assms show ?thesis
    by (simp add: bluesky_run_def returns_def)
next
  case Mastodon
  with assms show ?thesis
    by (simp add: mastodon_run_def returns_def)
next
  case Reddit
  with assms show ?thesis
    by (simp add: reddit_run_def returns_def)
next
  case Medium
  with assms show ?thesis
    by (simp add: medium_run_def returns_def)
next
  case Telegram
  with assms show ?thesis
    by (simp add: telegram_run_def returns_def)
qed

theorem unresolved_identity_writes_nothing_witness:
  "\<not> identity_resolved example_env GitHub ''nobody''
   \<and> run example_env GitHub ''nobody'' empty_world = (Inr None, empty_world)
   \<and> \<not> identity_resolved example_env Reddit ''nobody''
   \<and> run example_env Reddit ''nobody'' empty_world = (Inr None, empty_world)"
proof -
  have gh: "\<not> identity_resolved example_env GitHub ''nobody''"
    by (simp add: example_env_def example_github_def github_get_user_info_def)
  have rd: "\<not> identity_resolved example_env Reddit ''nobody''"
    by (simp add: example_env_def example_reddit_def reddit_get_user_info_def)
  show ?thesis
    using unresolved_identity_writes_nothing [OF gh, of empty_world]
      unresolved_identity_writes_nothing [OF rd, of empty_world] gh rd
    by simp
qed

subsection \<open>The file a successful run writes\<close>

lemma digit_chars: "list_all (\<lambda>k. is_digit (char_of (48 + k))) [0 ..< 10]"
  by code_simp

lemma is_digit_digit_char: "is_digit (digit_char n)"
proof -
  have "n mod 10 \<in> set [0 ..< 10]" by simp
  with digit_chars show ?thesis
    unfolding digit_char_def list_all_iff by blast
qed

lemma length_pad_num: "length (pad_num w n) = w"
  by (induction w arbitrary: n) simp_all

lemma matches_pattern_length: "matches_pattern p s \<Longrightarrow> length p = length s"
  by (induction p s rule: matches_pattern.induct) simp_all

lemma matches_pattern_append:
  "length p = length s \<Longrightarrow>
   matches_pattern (p @ p') (s @ s') = (matches_pattern p s \<and> matches_pattern p' s')"
  by (induction p s rule: list_induct2) simp_all

lemma matches_pattern_appendI:
  assumes "matches_pattern p s" and "matches_pattern p' s'"
  shows "matches_pattern (p @ p') (s @ s')"
  using matches_pattern_append [OF matches_pattern_length [OF assms(1)], of p' s'] assms
  by simp

lemma matches_pattern_pad_num: "matches_pattern (replicate w CHR ''d'') (pad_num w n)"
proof (induction w arbitrary: n)
  case 0
  then show ?case by simp
next
  case (Suc w)
  have last: "matches_pattern [CHR ''d''] [digit_char n]"
    by (simp add: is_digit_digit_char)
  have "matches_pattern (replicate w CHR ''d'' @ [CHR ''d'']) (pad_num w (n div 10) @ [digit_char n])"
    by (rule matches_pattern_appendI [OF Suc last])
  then show ?case by (simp only: replicate_append_same pad_num.simps replicate.simps)
qed

lemma pad2: "matches_pattern ''dd'' (pad_num 2 n)"
proof -
  have "replicate 2 CHR ''d'' = ''dd''" by (simp add: numeral_eq_Suc)
  with matches_pattern_pad_num [of 2 n] show ?thesis by simp
qed

lemma pad4: "matches_pattern ''dddd'' (pad_num 4 n)"
proof -
  have "replicate 4 CHR ''d'' = ''dddd''" by (simp add: numeral_eq_Suc)
  with matches_pattern_pad_num [of 4 n] show ?thesis by simp
qed

lemma pad6: "matches_pattern ''dddddd'' (pad_num 6 n)"
proof -
  have "replicate 6 CHR ''d'' = ''dddddd''" by (simp add: numeral_eq_Suc)
  with matches_pattern_pad_num [of 6 n] show ?thesis by simp
qed

lemma literal_matches:
  "matches_pattern ''_'' ''_''" "matches_pattern ''.json'' ''.json''"
  "matches_pattern ''-'' ''-''" "matches_pattern ''T'' ''T''" "matches_pattern '':'' '':''"
  "matches_pattern ''.'' ''.''"
  by simp_all

lemma stamp_matches: "matches_pattern (stamp_8_6 @ ''.json'') (strftime_stamp t @ ''.json'')"
proof -
  have "matches_pattern (''dddd'' @ ''dd'' @ ''dd'' @ ''_'' @ ''dd'' @ ''dd'' @ ''dd'' @ ''.json'')
          (pad_num 4 (year t) @ pad_num 2 (month t) @ pad_num 2 (day t) @ ''_''
           @ pad_num 2 (hour t) @ pad_num 2 (minute t) @ pad_num 2 (second t) @ ''.json'')"
    by (intro matches_pattern_appendI pad2 pad4 literal_matches)
  then show ?thesis by (simp add: stamp_8_6_def strftime_stamp_def)
qed

lemma iso8601_isoformat: "iso8601 (isoformat t)"
proof (cases "microsecond t = 0")
  case True
  have "matches_pattern (''dddd'' @ ''-'' @ ''dd'' @ ''-'' @ ''dd'' @ ''T'' @ ''dd'' @ '':'' @ ''dd'' @ '':'' @ ''dd'')
          (pad_num 4 (year t) @ ''-'' @ pad_num 2 (month t) @ ''-'' @ pad_num 2 (day t) @ ''T''
           @ pad_num 2 (hour t) @ '':'' @ pad_num 2 (minute t) @ '':'' @ pad_num 2 (second t))"
    by (intro matches_pattern_appendI pad2 pad4 literal_matches)
  with True show ?thesis by (simp add: iso8601_def isoformat_def)
next
  case False
  have "matches_pattern (''dddd'' @ ''-'' @ ''dd'' @ ''-'' @ ''dd'' @ ''T'' @ ''dd'' @ '':'' @ ''dd'' @ '':'' @ ''dd''
           @ ''.'' @ ''dddddd'')
          (pad_num 4 (year t) @ ''-'' @ pad_num 2 (month t) @ ''-'' @ pad_num 2 (day t) @ ''T''
           @ pad_num 2 (hour t) @ '':'' @ pad_num 2 (minute t) @ '':'' @ pad_num 2 (second t)
           @ ''.'' @ pad_num 6 (microsecond t))"
    by (intro matches_pattern_appendI pad2 pad4 pad6 literal_matches)
  with False show ?thesis by (simp add: iso8601_def isoformat_def)
qed

lemma named_with_stamp:
  "named_with stamp_8_6 name username (name @ ''_'' @ username @ ''_'' @ strftime_stamp t @ ''.json'')"
proof -
  define head where "head = name @ ''_'' @ username @ ''_''"
  define rest where "rest = strftime_stamp t @ ''.json''"
  have eq: "name @ ''_'' @ username @ ''_'' @ strftime_stamp t @ ''.json'' = head @ rest"
    by (simp add: head_def rest_def)
  have "take (length head) (head @ rest) = head \<and> drop (length head) (head @ rest) = rest"
    by simp
  moreover have "matches_pattern (stamp_8_6 @ ''.json'') rest"
    unfolding rest_def by (rule stamp_matches)
  ultimately show ?thesis
    unfolding named_with_def Let_def eq head_def [symmetric] by simp
qed

lemma export_document_written:
  assumes fresh: "map_of sections ''extraction_date'' = None"
    and exported: "export_document clk name sections username w = (filename, w')"
  shows "\<exists>doc date.
           files w' = files w @ [(filename, doc)]
           \<and> named_with stamp_8_6 name username filename
           \<and> jfield ''extraction_date'' doc = Some (JStr date)
           \<and> iso8601 date"
proof -
  let ?doc = "JObj (sections @ [(''extraction_date'', JStr (isoformat (clk (ticks w))))])"
  have f: "filename = name @ ''_'' @ username @ ''_'' @ strftime_stamp (clk (Suc (ticks w))) @ ''.json''"
    and w': "files w' = files w @ [(filename, ?doc)]"
    using exported unfolding export_document_result by auto
  have "jfield ''extraction_date'' ?doc = Some (JStr (isoformat (clk (ticks w))))"
    using fresh by (simp add: map_add_def)
  with w' f named_with_stamp iso8601_isoformat show ?thesis by blast
qed

lemma now_files: "files (snd (now clk w)) = files w"
  by (simp add: now_def)

lemma stackoverflow_extract_user_data_files:
  "files (snd (stackoverflow_extract_user_data clk env user_id w)) = files w"
  by (simp add: stackoverflow_extract_user_data_def now_def Let_def split: option.splits)

lemma stackoverflow_extract_all_files:
  "files (snd (stackoverflow_extract_all clk env ids acc w)) = files w"
proof (induction ids arbitrary: acc w)
  case Nil
  then show ?case by simp
next
  case (Cons i ids)
  obtain r w1 where step: "stackoverflow_extract_user_data clk env i w = (r, w1)"
    by (cases "stackoverflow_extract_user_data clk env i w")
  then have "files w1 = files w"
    using stackoverflow_extract_user_data_files [of clk env i w] by simp
  with step Cons.IH show ?case by (cases r) simp_all
qed

lemma youtube_extract_channel_data_files:
  "files (snd (youtube_extract_channel_data clk env channel_id w)) = files w"
  by (simp add: youtube_extract_channel_data_def now_def Let_def split: option.splits)

lemma youtube_extract_all_files:
  "files (snd (youtube_extract_all clk env ids acc w)) = files w"
proof (induction ids arbitrary: acc w)
  case Nil
  then show ?case by simp
next
  case (Cons i ids)
  obtain r w1 where step: "youtube_extract_channel_data clk env i w = (r, w1)"
    by (cases "youtube_extract_channel_data clk env i w")
  then have "files w1 = files w"
    using youtube_extract_channel_data_files [of clk env i w] by simp
  with step Cons.IH show ?case by (cases r) simp_all
qed

lemma github_run_written:
  assumes "github_run d clk env username w = (Some filename, w')"
  shows "\<exists>doc date. files w' = files w @ [(filename, doc)]
           \<and> named_with stamp_8_6 ''github'' username filename
           \<and> jfield ''extraction_date'' doc = Some (JStr date) \<and> iso8601 date"
  using assms
  by (auto simp: github_run_def Let_def split: if_splits option.splits prod.splits
        dest!: export_document_written [rotated])

lemma reddit_run_written:
  assumes "reddit_run d clk env username w = (Some filename, w')"
  shows "\<exists>doc date. files w' = files w @ [(filename, doc)]
           \<and> named_with stamp_8_6 ''reddit'' username filename
           \<and> jfield ''extraction_date'' doc = Some (JStr date) \<and> iso8601 date"
  using assms
  by (auto simp: reddit_run_def Let_def split: if_splits option.splits prod.splits
        dest!: export_document_written [rotated])

lemma medium_run_written:
  assumes "medium_run d clk env username w = (Some filename, w')"
  shows "\<exists>doc date. files w' = files w @ [(filename, doc)]
           \<and> named_with stamp_8_6 ''medium'' username filename
           \<and> jfield ''extraction_date'' doc = Some (JStr date) \<and> iso8601 date"
  using assms
  by (auto simp: medium_run_def Let_def split: if_splits option.splits prod.splits
        dest!: export_document_written [rotated])

lemma bluesky_run_written:
  assumes "bluesky_run d clk env username w = (Some filename, w')"
  shows "\<exists>doc date. files w' = files w @ [(filename, doc)]
           \<and> named_with stamp_8_6 ''bluesky'' username filename
           \<and> jfield ''extraction_date'' doc = Some (JStr date) \<and> iso8601 date"
  using assms
  by (auto simp: bluesky_run_def Let_def split: if_splits option.splits prod.splits
        dest!: export_document_written [rotated])

lemma mastodon_run_written:
  assumes "mastodon_run d clk env username w = (Some filename, w')"
  shows "\<exists>doc date. files w' = files w @ [(filename, doc)]
           \<and> named_with stamp_8_6 ''mastodon'' username filename
           \<and> jfield ''extraction_date'' doc = Some (JStr date) \<and> iso8601 date"
  using assms
  by (auto simp: mastodon_run_def Let_def split: if_splits option.splits prod.splits
        dest!: export_document_written [rotated])

lemma telegram_run_written:
  assumes "telegram_run d clk env username w = (Some filename, w')"
  shows "\<exists>doc date. files w' = files w @ [(filename, doc)]
           \<and> named_with stamp_8_6 ''telegram'' username filename
           \<and> jfield ''extraction_date'' doc = Some (JStr date) \<and> iso8601 date"
  using assms
  by (auto simp: telegram_run_def Let_def split: if_splits option.splits prod.splits
        dest!: export_document_written [rotated])

lemma stackoverflow_extract_all_result_files:
  "stackoverflow_extract_all clk env ids acc w = (r, w1) \<Longrightarrow> files w1 = files w"
  using stackoverflow_extract_all_files [of clk env ids acc w] by simp

lemma stackoverflow_run_written:
  assumes "stackoverflow_run d clk env username w = (Inr (Some filename), w')"
  shows "\<exists>doc date. files w' = files w @ [(filename, doc)]
           \<and> named_with stamp_8_6 ''stackoverflow'' username filename
           \<and> jfield ''extraction_date'' doc = Some (JStr date) \<and> iso8601 date"
  using assms
  by (auto simp: stackoverflow_run_def Let_def
        split: if_splits option.splits prod.splits sum.splits
        dest!: export_document_written [rotated] stackoverflow_extract_all_result_files)

lemma youtube_extract_all_result_files:
  "youtube_extract_all clk env ids acc w = (r, w1) \<Longrightarrow> files w1 = files w"
  using youtube_extract_all_files [of clk env ids acc w] by simp

lemma youtube_run_written:
  assumes "youtube_run d clk env username w = (Inr (Some filename), w')"
  shows "\<exists>doc date. files w' = files w @ [(filename, doc)]
           \<and> named_with stamp_8_6 ''youtube'' username filename
           \<and> jfield ''extraction_date'' doc = Some (JStr date) \<and> iso8601 date"
  using assms
  by (auto simp: youtube_run_def Let_def
        split: if_splits option.splits prod.splits sum.splits
        dest!: export_document_written [rotated] youtube_extract_all_result_files)

text \<open>
  Claim C1, as the code has it. For every platform client, a run that returns a file
  name has written exactly one file, under that name; the name is the platform name, the
  identity and a stamp of eight digits, an underscore and six digits, joined by
  underscores and followed by \<open>.json\<close>; the document written is a JSON object whose
  \<open>extraction_date\<close> is a date in ISO 8601 form.
\<close>

theorem successful_run_writes_one_stamped_document:
  assumes "run E p username w = (Inr (Some filename), w')"
  shows "\<exists>doc date. files w' = files w @ [(filename, doc)]
           \<and> named_with stamp_8_6 (platform_name p) username filename
           \<and> jfield ''extraction_date'' doc = Some (JStr date) \<and> iso8601 date"
proof (cases p)
  case StackOverflow
  with assms have "stackoverflow_run (env_deps E) (env_clock E) (env_stackoverflow E) username w = (Inr (Some filename), w')"
    by simp
  from stackoverflow_run_written [OF this] show ?thesis
    unfolding StackOverflow platform_name.simps .
next
  case YouTube
  with assms have "youtube_run (env_deps E) (env_clock E) (env_youtube E) username w = (Inr (Some filename), w')"
    by simp
  from youtube_run_written [OF this] show ?thesis
    unfolding YouTube platform_name.simps .
next
  case GitHub
  with assms have "github_run (env_deps E) (env_clock E) (env_github E) username w = (Some filename, w')"
    by (simp add: returns_def prod_eq_iff)
  from github_run_written [OF this] show ?thesis
    unfolding GitHub platform_name.simps .
next
  case Bluesky
  with assms have "bluesky_run (env_deps E) (env_clock E) (env_bluesky E) username w = (Some filename, w')"
    by (simp add: returns_def prod_eq_iff)
  from bluesky_run_written [OF this] show ?thesis
    unfolding Bluesky platform_name.simps .
next
  case Mastodon
  with assms have "mastodon_run (env_deps E) (env_clock E) (env_mastodon E) username w = (Some filename, w')"
    by (simp add: returns_def prod_eq_iff)
  from mastodon_run_written [OF this] show ?thesis
    unfolding Mastodon platform_name.simps .
next
  case Reddit
  with assms have "reddit_run (env_deps E) (env_clock E) (env_reddit E) username w = (Some filename, w')"
    by (simp add: returns_def prod_eq_iff)
  from reddit_run_written [OF this] show ?thesis
    unfolding Reddit platform_name.simps .
next
  case Medium
  with assms have "medium_run (env_deps E) (env_clock E) (env_medium E) username w = (Some filename, w')"
    by (simp add: returns_def prod_eq_iff)
  from medium_run_written [OF this] show ?thesis
    unfolding Medium platform_name.simps .
next
  case Telegram
  with assms have "telegram_run (env_deps E) (env_clock E) (env_telegram E) username w = (Some filename, w')"
    by (simp add: returns_def prod_eq_iff)
  from telegram_run_written [OF this] show ?thesis
    unfolding Telegram platform_name.simps .
qed

lemma example_github_run:
  "fst (run example_env GitHub ''octocat'' empty_world) = Inr (Some ''github_octocat_20240102_030405.json'')"
  by code_simp

text \<open>
  Claim C1 as the specification words it fails: the stamp in the name of the file that
  the GitHub client writes at 2024-01-02 03:04:05 is \<open>20240102_030405\<close>, which is
  not a run of fourteen digits.
\<close>

theorem fourteen_digit_stamp_counterexample:
  "fst (run example_env GitHub ''octocat'' empty_world)
     = Inr (Some ''github_octocat_20240102_030405.json'')
   \<and> \<not> named_with stamp14 ''github'' ''octocat'' ''github_octocat_20240102_030405.json''"
  by code_simp

theorem successful_run_writes_one_stamped_document_witness:
  "fst (run example_env GitHub ''octocat'' empty_world)
     = Inr (Some ''github_octocat_20240102_030405.json'')
   \<and> (\<exists>doc date.
         files (snd (run example_env GitHub ''octocat'' empty_world))
           = files empty_world @ [(''github_octocat_20240102_030405.json'', doc)]
         \<and> named_with stamp_8_6 (platform_name GitHub) ''octocat''
              ''github_octocat_20240102_030405.json''
         \<and> jfield ''extraction_date'' doc = Some (JStr date) \<and> iso8601 date)"
proof -
  have r: "run example_env GitHub ''octocat'' empty_world
             = (Inr (Some ''github_octocat_20240102_030405.json''),
                snd (run example_env GitHub ''octocat'' empty_world))"
    using example_github_run by (simp add: prod_eq_iff)
  show ?thesis
    using successful_run_writes_one_stamped_document [OF r] example_github_run by simp
qed

subsection \<open>Bluesky: the handle variants\<close>

lemma try_handles_find:
  "try_handles (bs_resolve env) hs =
     (case List.find (resolves_to_did env) hs of None \<Rightarrow> None | Some h \<Rightarrow> did_of env h)"
proof (induction hs)
  case Nil
  then show ?case by simp
next
  case (Cons h hs)
  show ?case
  proof (cases "bs_resolve env h")
    case RequestException
    with Cons show ?thesis by (simp add: resolves_to_did_def)
  next
    case (Response did)
    with Cons show ?thesis by (cases did) (simp_all add: resolves_to_did_def did_of_def)
  qed
qed

text \<open>
  Claim C2 as the specification words it fails: for the input \<open>bob.dev\<close> the code tries
  the literal input alone and finds no DID, although the second variant of the
  specification, \<open>bob.dev.bsky.social\<close>, resolves.
\<close>

theorem handle_with_dot_counterexample:
  "handles_to_try ''bob.dev'' = [''bob.dev'']
   \<and> resolve_handle example_bluesky ''bob.dev'' = None
   \<and> try_handles (bs_resolve example_bluesky) (spec_handles_to_try ''bob.dev'') = Some ''did:plc:bob''"
  by code_simp

text \<open>
  Claim C2, as the code has it. The input without its \<open>@\<close> characters and surrounding
  whitespace is tried first; \<open>{handle}.bsky.social\<close> and \<open>{handle}.com\<close> follow, in
  this order, only when that handle contains no dot. The DID returned is that of the
  first variant that resolves to a non-empty DID, and when no variant does, \<open>run\<close>
  returns \<^verbatim>\<open>None\<close> and the world is as before.
\<close>

theorem bluesky_handle_variants:
  "handles_to_try raw =
     (let handle = strip (remove_char CHR ''@'' raw)
      in if CHR ''.'' \<in> set handle then [handle]
         else [handle, handle @ ''.bsky.social'', handle @ ''.com''])
   \<and> resolve_handle env raw =
       (case List.find (resolves_to_did env) (handles_to_try raw) of
          None \<Rightarrow> None
        | Some h \<Rightarrow> did_of env h)
   \<and> (list_all (\<lambda>h. \<not> resolves_to_did env h) (handles_to_try raw) \<longrightarrow>
        resolve_handle env raw = None \<and> bluesky_run d clk env raw w = (None, w))"
proof (intro conjI impI)
  show "handles_to_try raw =
     (let handle = strip (remove_char CHR ''@'' raw)
      in if CHR ''.'' \<in> set handle then [handle]
         else [handle, handle @ ''.bsky.social'', handle @ ''.com''])"
    by (simp add: handles_to_try_def Let_def)
  show found: "resolve_handle env raw =
       (case List.find (resolves_to_did env) (handles_to_try raw) of
          None \<Rightarrow> None
        | Some h \<Rightarrow> did_of env h)"
    unfolding resolve_handle_def by (rule try_handles_find)
  assume "list_all (\<lambda>h. \<not> resolves_to_did env h) (handles_to_try raw)"
  then have "List.find (resolves_to_did env) (handles_to_try raw) = None"
    by (simp add: find_None_iff list_all_iff)
  with found show none: "resolve_handle env raw = None" by simp
  then show "bluesky_run d clk env raw w = (None, w)"
    by (simp add: bluesky_run_def)
qed

theorem bluesky_handle_variants_witness:
  "handles_to_try ''@ada '' = [''ada'', ''ada.bsky.social'', ''ada.com'']
   \<and> resolve_handle example_bluesky ''@ada '' = Some ''did:plc:ada''
   \<and> list_all (\<lambda>h. \<not> resolves_to_did example_bluesky h) (handles_to_try ''bob.dev'')
   \<and> resolve_handle example_bluesky ''bob.dev'' = None
   \<and> bluesky_run example_deps example_clock example_bluesky ''bob.dev'' empty_world
       = (None, empty_world)"
proof -
  have ada: "strip (remove_char CHR ''@'' ''@ada '') = ''ada''"
    by code_simp
  have ada_find: "List.find (resolves_to_did example_bluesky) [''ada'', ''ada.bsky.social'', ''ada.com'']
                   = Some ''ada.bsky.social''"
    "did_of example_bluesky ''ada.bsky.social'' = Some ''did:plc:ada''"
    by code_simp+
  have bob: "list_all (\<lambda>h. \<not> resolves_to_did example_bluesky h) (handles_to_try ''bob.dev'')"
    by code_simp
  note a = bluesky_handle_variants [of "''@ada ''" example_bluesky example_deps example_clock empty_world]
  note b = bluesky_handle_variants [of "''bob.dev''" example_bluesky example_deps example_clock empty_world]
  have h: "handles_to_try ''@ada '' = [''ada'', ''ada.bsky.social'', ''ada.com'']"
    using a [THEN conjunct1] by (simp add: ada Let_def)
  have r: "resolve_handle example_bluesky ''@ada '' = Some ''did:plc:ada''"
    using a [THEN conjunct2, THEN conjunct1] unfolding h ada_find(1) by (simp add: ada_find(2))
  have n: "resolve_handle example_bluesky ''bob.dev'' = None
           \<and> bluesky_run example_deps example_clock example_bluesky ''bob.dev'' empty_world
               = (None, empty_world)"
    using b [THEN conjunct2, THEN conjunct2] bob by blast
  from h r bob n show ?thesis by blast
qed

subsection \<open>Pagination\<close>











subsection \<open>Caps of the collections\<close>




subsection \<open>The orchestrator\<close>

lemma platform_name_inj: "platform_name p = platform_name q \<Longrightarrow> p = q"
  by (cases p; cases q) simp_all

lemma modelled_clients_never_interrupt:
  "fst (extractor_run (orchestration_of E dir) p username w) \<noteq> Interrupted"
  by (cases "run E p username w" rule: prod.exhaust; cases "fst (run E p username w)")
     (simp_all add: orchestration_of_def outcome_of_def)








end
